theory Spec2Isabelle
  imports Main "HOL-Library.Sublist"
begin

section \<open>Strings\<close>

text \<open>
  Text is a list of characters. A character stands for a code point below 256; on
  that range Python's \<^verbatim>\<open>str.lower\<close> moves \<^verbatim>\<open>A\<close>..\<^verbatim>\<open>Z\<close> (65..90) and
  the accented capitals 192..222, the multiplication sign 215 apart, to the code point
  32 above, and leaves every other character alone.
\<close>

definition lower_char :: "char \<Rightarrow> char" where
  "lower_char c =
     (let n = (of_char c :: nat)
      in if (65 \<le> n \<and> n \<le> 90) \<or> (192 \<le> n \<and> n \<le> 222 \<and> n \<noteq> 215)
         then char_of (n + 32) else c)"

definition lower :: "string \<Rightarrow> string" where
  "lower s = map lower_char s"

text \<open>\<^verbatim>\<open>text.startswith(word)\<close>, the test at one position of \<^verbatim>\<open>word in text\<close>.\<close>

fun starts_with :: "string \<Rightarrow> string \<Rightarrow> bool" where
  "starts_with [] t = True"
| "starts_with (w # ws) [] = False"
| "starts_with (w # ws) (c # cs) = (w = c \<and> starts_with ws cs)"

text \<open>\<^verbatim>\<open>word in text\<close> on two strings: \<open>word\<close> occurs at some position of \<open>text\<close>.\<close>

fun str_in :: "string \<Rightarrow> string \<Rightarrow> bool" where
  "str_in w [] = (w = [])"
| "str_in w (c # cs) = (starts_with w (c # cs) \<or> str_in w cs)"

text \<open>\<^verbatim>\<open>any(word in text for word in words)\<close>.\<close>

definition any_in :: "string list \<Rightarrow> string \<Rightarrow> bool" where
  "any_in words t = list_ex (\<lambda>w. str_in w t) words"

section \<open>The industry classifier\<close>

text \<open>The keyword lists that \<^verbatim>\<open>detect_industry\<close> writes in its branches, in branch order.\<close>

definition tech_words :: "string list" where
  "tech_words = [''developer'', ''engineer'', ''software'', ''programmer'', ''tech'',
                 ''data'', ''cloud'', ''devops'', ''frontend'', ''backend'']"

definition sales_words :: "string list" where
  "sales_words = [''sales'', ''marketing'', ''account'', ''business development'', ''growth'']"

definition finance_words :: "string list" where
  "finance_words = [''finance'', ''accountant'', ''financial'', ''controller'', ''cfo'']"

definition health_words :: "string list" where
  "health_words = [''health'', ''medical'', ''doctor'', ''nurse'', ''clinical'']"

definition design_words :: "string list" where
  "design_words = [''design'', ''ux'', ''ui'', ''graphic'', ''creative'']"

definition hr_words :: "string list" where
  "hr_words = [''human resources'', ''hr'', ''operations'', ''admin'']"

definition service_words :: "string list" where
  "service_words = [''customer'', ''support'', ''service'', ''success'']"

text \<open>
  \<^verbatim>\<open>text = f"{vacancy_name} {company_name}".lower()\<close>: the two arguments with one space
  between them, lowercased; then the chain of \<^verbatim>\<open>if\<close>/\<^verbatim>\<open>elif\<close>.
\<close>

definition detect_industry :: "string \<Rightarrow> string \<Rightarrow> string" where
  "detect_industry vacancy_name company_name =
     (let text = lower (vacancy_name @ '' '' @ company_name)
      in if any_in tech_words text then ''technology''
         else if any_in sales_words text then ''sales_marketing''
         else if any_in finance_words text then ''finance''
         else if any_in health_words text then ''healthcare''
         else if any_in design_words text then ''design''
         else if any_in hr_words text then ''operations_hr''
         else if any_in service_words text then ''customer_service''
         else ''general'')"

text \<open>
  The classifier in the specification's words, for comparison with the code: a table of
  categories in priority order, the first category with a keyword inside the text, and
  \<open>general\<close> when there is none.
\<close>

definition priority_order :: "(string \<times> string list) list" where
  "priority_order =
     [(''technology'', tech_words), (''sales_marketing'', sales_words),
      (''finance'', finance_words), (''healthcare'', health_words),
      (''design'', design_words), (''operations_hr'', hr_words),
      (''customer_service'', service_words)]"

fun first_match :: "(string \<times> string list) list \<Rightarrow> string \<Rightarrow> string" where
  "first_match [] t = ''general''"
| "first_match ((cat, words) # rest) t =
     (if list_ex (\<lambda>w. sublist w t) words then cat else first_match rest t)"

definition categories :: "string list" where
  "categories = [''technology'', ''sales_marketing'', ''finance'', ''healthcare'', ''design'',
                 ''operations_hr'', ''customer_service'', ''general'']"

text \<open>
  The specification's sentence taken literally: title and organization concatenated with
  nothing between them.
\<close>

definition classify_as_stated :: "string \<Rightarrow> string \<Rightarrow> string" where
  "classify_as_stated title organization = first_match priority_order (lower (title @ organization))"

section \<open>The warehouse tables and SQL's three-valued conditions\<close>

text \<open>
  The queries read three tables. Every column may be NULL, which is \<open>None\<close>.
  A timestamp counts seconds from 1970-01-01 00:00, a date counts days from 1970-01-01.
  The column prefixes are the aliases the queries give the tables.
\<close>

type_synonym timestamp = int
type_synonym ident = nat

record job =
  mj_objective :: "string option"
  mj_hash_id :: "string option"
  mj_locale :: "string option"
  mj_published_date :: "timestamp option"
  mj_organization_name :: "string option"
  mj_poster_gg_id :: "ident option"
  mj_status :: "string option"
  mj_review :: "string option"
  mj_valuable_appls :: "int option"
  mj_business_line :: "string option"
  mj_poster_first_post :: "timestamp option"
  mj_opportunity_id :: "ident option"

record genome =
  mg_name :: "string option"
  mg_email :: "string option"
  mg_gg_id :: "ident option"

record application =
  ma_opportunity_id :: "ident option"
  ma_disqualified_date :: "timestamp option"
  ma_mm_date :: "timestamp option"

record database =
  mart_jobs :: "job list"
  mart_genomes :: "genome list"
  mart_applications :: "application list"
  current_date :: int

text \<open>
  A condition is true, false or unknown (\<open>None\<close>); a comparison with NULL is unknown,
  and \<^verbatim>\<open>WHERE\<close> and \<^verbatim>\<open>ON\<close> keep a row only when the condition is true.
\<close>

type_synonym sql_bool = "bool option"

definition sql_and :: "sql_bool \<Rightarrow> sql_bool \<Rightarrow> sql_bool" where
  "sql_and p q =
     (if p = Some False then Some False
      else if q = Some False then Some False
      else if p = Some True \<and> q = Some True then Some True
      else None)"

definition sql_or :: "sql_bool \<Rightarrow> sql_bool \<Rightarrow> sql_bool" where
  "sql_or p q =
     (if p = Some True then Some True
      else if q = Some True then Some True
      else if p = Some False \<and> q = Some False then Some False
      else None)"

definition sql_eq :: "'a option \<Rightarrow> 'a option \<Rightarrow> sql_bool" where
  "sql_eq a b =
     (case a of None \<Rightarrow> None
      | Some x \<Rightarrow> (case b of None \<Rightarrow> None | Some y \<Rightarrow> Some (x = y)))"

definition sql_ne :: "'a option \<Rightarrow> 'a option \<Rightarrow> sql_bool" where
  "sql_ne a b =
     (case a of None \<Rightarrow> None
      | Some x \<Rightarrow> (case b of None \<Rightarrow> None | Some y \<Rightarrow> Some (x \<noteq> y)))"

definition sql_lt :: "int option \<Rightarrow> int option \<Rightarrow> sql_bool" where
  "sql_lt a b =
     (case a of None \<Rightarrow> None
      | Some x \<Rightarrow> (case b of None \<Rightarrow> None | Some y \<Rightarrow> Some (x < y)))"

definition sql_ge :: "int option \<Rightarrow> int option \<Rightarrow> sql_bool" where
  "sql_ge a b =
     (case a of None \<Rightarrow> None
      | Some x \<Rightarrow> (case b of None \<Rightarrow> None | Some y \<Rightarrow> Some (y \<le> x)))"

definition is_null :: "'a option \<Rightarrow> sql_bool" where
  "is_null a = Some (a = None)"

definition holds :: "sql_bool \<Rightarrow> bool" where
  "holds p = (p = Some True)"

definition coalesce :: "'a option \<Rightarrow> 'a \<Rightarrow> 'a" where
  "coalesce a d = (case a of None \<Rightarrow> d | Some x \<Rightarrow> x)"

definition greatest :: "timestamp \<Rightarrow> timestamp \<Rightarrow> timestamp" where
  "greatest a b = (if a \<le> b then b else a)"

text \<open>\<^verbatim>\<open>MAX\<close> and \<^verbatim>\<open>MIN\<close> skip NULLs and are NULL when nothing is left.\<close>

fun sql_max :: "int option list \<Rightarrow> int option" where
  "sql_max [] = None"
| "sql_max (None # xs) = sql_max xs"
| "sql_max (Some a # xs) = (case sql_max xs of None \<Rightarrow> Some a | Some b \<Rightarrow> Some (max a b))"

fun sql_min :: "int option list \<Rightarrow> int option" where
  "sql_min [] = None"
| "sql_min (None # xs) = sql_min xs"
| "sql_min (Some a # xs) = (case sql_min xs of None \<Rightarrow> Some a | Some b \<Rightarrow> Some (min a b))"

text \<open>\<^verbatim>\<open>COUNT(DISTINCT e)\<close>: the number of different non-NULL values.\<close>

definition count_distinct :: "'a option list \<Rightarrow> nat" where
  "count_distinct xs = length (remdups (List.map_filter (\<lambda>x. x) xs))"

text \<open>
  \<^verbatim>\<open>current_date\<close> as the timestamp of its midnight, \<^verbatim>\<open>INTERVAL 'n days'\<close>, and
  \<^verbatim>\<open>'1970-01-01'::timestamp\<close>.
\<close>

definition date_ts :: "int \<Rightarrow> timestamp" where
  "date_ts d = d * 86400"

definition interval_days :: "int \<Rightarrow> int" where
  "interval_days n = n * 86400"

definition epoch :: timestamp where
  "epoch = 0"

section \<open>The flag queries\<close>

text \<open>
  The columns every flag query selects, \<^verbatim>\<open>r[0]\<close> to \<^verbatim>\<open>r[7]\<close>; two queries select a
  ninth, \<^verbatim>\<open>r[8]\<close>.
\<close>

record flag_row =
  row_ts_name :: "string option"
  row_ts_email :: "string option"
  row_vacancy_name :: "string option"
  row_hash_id :: "string option"
  row_locale :: "string option"
  row_published_date :: "timestamp option"
  row_company_name :: "string option"
  row_poster_gg_id :: "ident option"

record new_ts_row = flag_row +
  row_review_status :: "string option"

record less_than_6_row = flag_row +
  row_valuable_appls :: "int option"

text \<open>\<^verbatim>\<open>mart_jobs mj INNER JOIN mart_genomes mg ON mj.poster_gg_id = mg.gg_id\<close>.\<close>

definition jobs_with_posters :: "database \<Rightarrow> (job \<times> genome) list" where
  "jobs_with_posters db =
     concat (map (\<lambda>mj. map (Pair mj)
                (filter (\<lambda>mg. holds (sql_eq (mj_poster_gg_id mj) (mg_gg_id mg))) (mart_genomes db)))
             (mart_jobs db))"

text \<open>
  \<^verbatim>\<open>ORDER BY mj.published_date DESC\<close>. SQL leaves the order of rows with equal dates
  open, the insertion sort keeps them as they were. No row that passes one of the
  \<^verbatim>\<open>WHERE\<close> clauses has a NULL date.
\<close>

definition desc_key :: "timestamp option \<Rightarrow> int" where
  "desc_key t = (case t of None \<Rightarrow> 0 | Some x \<Rightarrow> - x)"

definition order_by_published_desc :: "('a flag_row_scheme) list \<Rightarrow> ('a flag_row_scheme) list" where
  "order_by_published_desc rows = sort_key (\<lambda>r. desc_key (row_published_date r)) rows"

subsection \<open>new\_ts\_posting\<close>

definition new_ts_posting_where :: "database \<Rightarrow> int \<Rightarrow> job \<Rightarrow> sql_bool" where
  "new_ts_posting_where db days mj =
     sql_and (sql_eq (mj_published_date mj) (mj_poster_first_post mj))
    (sql_and (sql_eq (mj_status mj) (Some ''open''))
    (sql_and (sql_ge (mj_published_date mj) (Some (date_ts (current_date db) - interval_days days)))
    (sql_and (sql_lt (mj_published_date mj) (Some (date_ts (current_date db) + interval_days 1)))
             (sql_or (sql_ne (mj_business_line mj) (Some ''torre_os''))
                     (is_null (mj_business_line mj))))))"

definition new_ts_posting_matches :: "database \<Rightarrow> int \<Rightarrow> (job \<times> genome) list" where
  "new_ts_posting_matches db days =
     filter (\<lambda>(mj, mg). holds (new_ts_posting_where db days mj)) (jobs_with_posters db)"

definition new_ts_posting_select :: "job \<times> genome \<Rightarrow> new_ts_row" where
  "new_ts_posting_select jg =
     (case jg of (mj, mg) \<Rightarrow>
       \<lparr>row_ts_name = mg_name mg, row_ts_email = mg_email mg,
        row_vacancy_name = mj_objective mj, row_hash_id = mj_hash_id mj,
        row_locale = mj_locale mj, row_published_date = mj_published_date mj,
        row_company_name = mj_organization_name mj, row_poster_gg_id = mj_poster_gg_id mj,
        row_review_status = mj_review mj\<rparr>)"

definition new_ts_posting_query :: "database \<Rightarrow> int \<Rightarrow> new_ts_row list" where
  "new_ts_posting_query db days =
     order_by_published_desc (remdups (map new_ts_posting_select (new_ts_posting_matches db days)))"

subsection \<open>less\_than\_6\<close>

definition less_than_6_where :: "database \<Rightarrow> int \<Rightarrow> job \<Rightarrow> sql_bool" where
  "less_than_6_where db days mj =
     sql_and (sql_eq (mj_review mj) (Some ''approved''))
    (sql_and (sql_eq (mj_status mj) (Some ''open''))
    (sql_and (sql_lt (mj_valuable_appls mj) (Some 6))
    (sql_and (sql_ge (mj_published_date mj) (Some (date_ts (current_date db) - interval_days days)))
    (sql_and (sql_lt (mj_published_date mj) (Some (date_ts (current_date db) + interval_days 1)))
             (sql_or (sql_ne (mj_business_line mj) (Some ''torre_os''))
                     (is_null (mj_business_line mj)))))))"

definition less_than_6_matches :: "database \<Rightarrow> int \<Rightarrow> (job \<times> genome) list" where
  "less_than_6_matches db days =
     filter (\<lambda>(mj, mg). holds (less_than_6_where db days mj)) (jobs_with_posters db)"

definition less_than_6_select :: "job \<times> genome \<Rightarrow> less_than_6_row" where
  "less_than_6_select jg =
     (case jg of (mj, mg) \<Rightarrow>
       \<lparr>row_ts_name = mg_name mg, row_ts_email = mg_email mg,
        row_vacancy_name = mj_objective mj, row_hash_id = mj_hash_id mj,
        row_locale = mj_locale mj, row_published_date = mj_published_date mj,
        row_company_name = mj_organization_name mj, row_poster_gg_id = mj_poster_gg_id mj,
        row_valuable_appls = mj_valuable_appls mj\<rparr>)"

definition less_than_6_query :: "database \<Rightarrow> int \<Rightarrow> less_than_6_row list" where
  "less_than_6_query db days =
     order_by_published_desc (remdups (map less_than_6_select (less_than_6_matches db days)))"

subsection \<open>no\_activity\<close>

text \<open>
  The subquery \<open>activity\<close>: one row for each \<^verbatim>\<open>opportunity_id\<close> of
  \<^verbatim>\<open>mart_applications\<close> (\<^verbatim>\<open>GROUP BY\<close> puts the NULL ids into one group), with
  \<^verbatim>\<open>MAX(GREATEST(COALESCE(disqualified_date, epoch), COALESCE(mm_date, epoch)))\<close>.
\<close>

record activity =
  act_opportunity_id :: "ident option"
  last_activity :: "timestamp option"

definition activity_subquery :: "database \<Rightarrow> activity list" where
  "activity_subquery db =
     map (\<lambda>oid.
            \<lparr>act_opportunity_id = oid,
             last_activity =
               sql_max (map (\<lambda>ma. Some (greatest (coalesce (ma_disqualified_date ma) epoch)
                                                    (coalesce (ma_mm_date ma) epoch)))
                            (filter (\<lambda>ma. ma_opportunity_id ma = oid) (mart_applications db)))\<rparr>)
         (remdups (map ma_opportunity_id (mart_applications db)))"

text \<open>
  \<^verbatim>\<open>LEFT JOIN activity ON mj.opportunity_id = activity.opportunity_id\<close>: a posting without
  a matching row stays, with NULL for \<^verbatim>\<open>last_activity\<close>.
\<close>

definition no_activity_join :: "database \<Rightarrow> (job \<times> genome \<times> timestamp option) list" where
  "no_activity_join db =
     concat (map (\<lambda>(mj, mg).
                (let acts = filter (\<lambda>a. holds (sql_eq (mj_opportunity_id mj) (act_opportunity_id a)))
                                   (activity_subquery db)
                 in if acts = [] then [(mj, mg, None)]
                    else map (\<lambda>a. (mj, mg, last_activity a)) acts))
             (jobs_with_posters db))"

definition no_activity_where :: "database \<Rightarrow> int \<Rightarrow> int \<Rightarrow> job \<Rightarrow> timestamp option \<Rightarrow> sql_bool" where
  "no_activity_where db inactive_days lookback_days mj la =
     sql_and (sql_eq (mj_review mj) (Some ''approved''))
    (sql_and (sql_eq (mj_status mj) (Some ''open''))
    (sql_and (sql_ge (mj_published_date mj)
                     (Some (date_ts (current_date db) - interval_days lookback_days)))
    (sql_and (sql_or (sql_ne (mj_business_line mj) (Some ''torre_os''))
                     (is_null (mj_business_line mj)))
             (sql_or (sql_lt la (Some (date_ts (current_date db) - interval_days inactive_days)))
                     (is_null la)))))"

definition no_activity_matches ::
  "database \<Rightarrow> int \<Rightarrow> int \<Rightarrow> (job \<times> genome \<times> timestamp option) list" where
  "no_activity_matches db inactive_days lookback_days =
     filter (\<lambda>(mj, mg, la). holds (no_activity_where db inactive_days lookback_days mj la))
            (no_activity_join db)"

definition no_activity_select :: "job \<times> genome \<times> timestamp option \<Rightarrow> flag_row" where
  "no_activity_select jgl =
     (case jgl of (mj, mg, la) \<Rightarrow>
       \<lparr>row_ts_name = mg_name mg, row_ts_email = mg_email mg,
        row_vacancy_name = mj_objective mj, row_hash_id = mj_hash_id mj,
        row_locale = mj_locale mj, row_published_date = mj_published_date mj,
        row_company_name = mj_organization_name mj, row_poster_gg_id = mj_poster_gg_id mj\<rparr>)"

definition no_activity_query :: "database \<Rightarrow> int \<Rightarrow> int \<Rightarrow> flag_row list" where
  "no_activity_query db inactive_days lookback_days =
     order_by_published_desc
       (remdups (map no_activity_select (no_activity_matches db inactive_days lookback_days)))"

section \<open>The connection\<close>

text \<open>
  A statement is the query text with the values the f-string puts in. The connection
  either raises on a statement, with the message that \<^verbatim>\<open>str(e)\<close> later gives, or
  answers from its tables.
\<close>

datatype statement =
  NewTsPostingSql int
| LessThan6Sql int
| NoActivitySql int int
| ClientDetailsSql string

record client_row =
  row_name :: "string option"
  row_email :: "string option"
  row_gg_id :: "ident option"
  row_total_jobs :: nat
  row_open_jobs :: nat
  row_first_job_date :: "timestamp option"
  row_last_job_date :: "timestamp option"

record connection =
  raises :: "statement \<Rightarrow> string option"
  tables :: database
  other_text :: "string \<Rightarrow> client_row list"

text \<open>
  \<^verbatim>\<open>get_poseidon\<close>: the global \<^verbatim>\<open>_poseidon\<close> is the state, the factory is called
  only while it is \<^verbatim>\<open>None\<close>, and the factory may raise.
\<close>

definition get_poseidon ::
  "string + connection \<Rightarrow> connection option \<Rightarrow> (string + connection) \<times> connection option" where
  "get_poseidon factory poseidon =
     (case poseidon of
        Some conn \<Rightarrow> (Inr conn, poseidon)
      | None \<Rightarrow> (case factory of
                   Inl e \<Rightarrow> (Inl e, None)
                 | Inr conn \<Rightarrow> (Inr conn, Some conn)))"

definition execute_new_ts_posting :: "connection \<Rightarrow> int \<Rightarrow> string + new_ts_row list" where
  "execute_new_ts_posting conn days =
     (case raises conn (NewTsPostingSql days) of
        Some e \<Rightarrow> Inl e
      | None \<Rightarrow> Inr (new_ts_posting_query (tables conn) days))"

definition execute_less_than_6 :: "connection \<Rightarrow> int \<Rightarrow> string + less_than_6_row list" where
  "execute_less_than_6 conn days =
     (case raises conn (LessThan6Sql days) of
        Some e \<Rightarrow> Inl e
      | None \<Rightarrow> Inr (less_than_6_query (tables conn) days))"

definition execute_no_activity :: "connection \<Rightarrow> int \<Rightarrow> int \<Rightarrow> string + flag_row list" where
  "execute_no_activity conn inactive_days lookback_days =
     (case raises conn (NoActivitySql inactive_days lookback_days) of
        Some e \<Rightarrow> Inl e
      | None \<Rightarrow> Inr (no_activity_query (tables conn) inactive_days lookback_days))"

section \<open>Shaping the rows\<close>

text \<open>
  One record of \<^verbatim>\<open>data\<close>. \<^verbatim>\<open>published_date\<close> holds the value that \<^verbatim>\<open>str(r[5])\<close>
  prints; how a timestamp is printed is not modelled. The key \<^verbatim>\<open>locale\<close> is the field
  \<open>posting_locale\<close>.
\<close>

record flag_record =
  ts_name :: "string option"
  ts_email :: "string option"
  vacancy_name :: string
  vacancy_link :: string
  posting_locale :: "string option"
  published_date :: "timestamp option"
  company_name :: string
  poster_gg_id :: "ident option"
  industry :: string
  flag :: string

record new_ts_record = flag_record +
  review_status :: "string option"

record less_than_6_record = flag_record +
  valuable_appls :: "int option"

text \<open>\<^verbatim>\<open>x if x else d\<close> on a string or \<^verbatim>\<open>None\<close>: the empty string is false as well.\<close>

definition or_default :: "string option \<Rightarrow> string \<Rightarrow> string" where
  "or_default x d = (case x of None \<Rightarrow> d | Some s \<Rightarrow> if s = [] then d else s)"

text \<open>What an f-string prints for a string or \<^verbatim>\<open>None\<close>.\<close>

definition format_str :: "string option \<Rightarrow> string" where
  "format_str x = (case x of None \<Rightarrow> ''None'' | Some s \<Rightarrow> s)"

definition build_job_link :: "string option \<Rightarrow> string" where
  "build_job_link hash_id = ''https://torre.ai/post/'' @ format_str hash_id"

definition shape_new_ts_posting :: "new_ts_row \<Rightarrow> new_ts_record" where
  "shape_new_ts_posting r =
     (let vacancy = or_default (row_vacancy_name r) ''Untitled Position'';
          company = or_default (row_company_name r) ''Company''
      in \<lparr>ts_name = row_ts_name r, ts_email = row_ts_email r,
          vacancy_name = vacancy, vacancy_link = build_job_link (row_hash_id r),
          posting_locale = row_locale r, published_date = row_published_date r,
          company_name = company, poster_gg_id = row_poster_gg_id r,
          industry = detect_industry vacancy company, flag = ''new_ts_posting'',
          review_status = row_review_status r\<rparr>)"

definition shape_less_than_6 :: "less_than_6_row \<Rightarrow> less_than_6_record" where
  "shape_less_than_6 r =
     (let vacancy = or_default (row_vacancy_name r) ''Untitled Position'';
          company = or_default (row_company_name r) ''Company''
      in \<lparr>ts_name = row_ts_name r, ts_email = row_ts_email r,
          vacancy_name = vacancy, vacancy_link = build_job_link (row_hash_id r),
          posting_locale = row_locale r, published_date = row_published_date r,
          company_name = company, poster_gg_id = row_poster_gg_id r,
          industry = detect_industry vacancy company, flag = ''less_than_6'',
          valuable_appls = row_valuable_appls r\<rparr>)"

definition shape_no_activity :: "flag_row \<Rightarrow> flag_record" where
  "shape_no_activity r =
     (let vacancy = or_default (row_vacancy_name r) ''Untitled Position'';
          company = or_default (row_company_name r) ''Company''
      in \<lparr>ts_name = row_ts_name r, ts_email = row_ts_email r,
          vacancy_name = vacancy, vacancy_link = build_job_link (row_hash_id r),
          posting_locale = row_locale r, published_date = row_published_date r,
          company_name = company, poster_gg_id = row_poster_gg_id r,
          industry = detect_industry vacancy company, flag = ''no_activity''\<rparr>)"

section \<open>The flag endpoints\<close>

text \<open>
  A response body is \<^verbatim>\<open>{"success": True, ...}\<close> or
  \<^verbatim>\<open>{"success": False, "error": str(e)}\<close>.
\<close>

datatype 'p response = Success 'p | Failure string

record 'r payload =
  resp_flag :: string
  resp_description :: string
  resp_count :: nat
  resp_data :: "'r list"

record 'r lookback_payload = "'r payload" +
  days_lookback :: int

record 'r no_activity_payload = "'r payload" +
  inactive_days_threshold :: int
  lookback_days :: int

text \<open>The decimal digits an f-string prints for an integer.\<close>

fun str_nat :: "nat \<Rightarrow> string" where
  "str_nat n = (if n < 10 then [char_of (48 + n)]
                else str_nat (n div 10) @ [char_of (48 + n mod 10)])"

definition str_int :: "int \<Rightarrow> string" where
  "str_int i = (if i < 0 then CHR ''-'' # str_nat (nat (- i)) else str_nat (nat i))"

definition get_new_ts_posting ::
  "string + connection \<Rightarrow> connection option \<Rightarrow> int
   \<Rightarrow> new_ts_record lookback_payload response \<times> connection option" where
  "get_new_ts_posting factory poseidon days =
     (case get_poseidon factory poseidon of
        (Inl e, st) \<Rightarrow> (Failure e, st)
      | (Inr conn, st) \<Rightarrow>
          (case execute_new_ts_posting conn days of
             Inl e \<Rightarrow> (Failure e, st)
           | Inr results \<Rightarrow>
               (let data = map shape_new_ts_posting results
                in (Success \<lparr>resp_flag = ''new_ts_posting'',
                      resp_description =
                        ''TSs posting for the first time (includes approved & unapproved)'',
                      resp_count = length data, resp_data = data,
                      days_lookback = days\<rparr>, st))))"

definition get_less_than_6 ::
  "string + connection \<Rightarrow> connection option \<Rightarrow> int
   \<Rightarrow> less_than_6_record lookback_payload response \<times> connection option" where
  "get_less_than_6 factory poseidon days =
     (case get_poseidon factory poseidon of
        (Inl e, st) \<Rightarrow> (Failure e, st)
      | (Inr conn, st) \<Rightarrow>
          (case execute_less_than_6 conn days of
             Inl e \<Rightarrow> (Failure e, st)
           | Inr results \<Rightarrow>
               (let data = map shape_less_than_6 results
                in (Success \<lparr>resp_flag = ''less_than_6'',
                      resp_description =
                        ''Approved openings with less than 6 relevant applicants'',
                      resp_count = length data, resp_data = data,
                      days_lookback = days\<rparr>, st))))"

definition get_no_activity ::
  "string + connection \<Rightarrow> connection option \<Rightarrow> int \<Rightarrow> int
   \<Rightarrow> flag_record no_activity_payload response \<times> connection option" where
  "get_no_activity factory poseidon inactive_days lookback =
     (case get_poseidon factory poseidon of
        (Inl e, st) \<Rightarrow> (Failure e, st)
      | (Inr conn, st) \<Rightarrow>
          (case execute_no_activity conn inactive_days lookback of
             Inl e \<Rightarrow> (Failure e, st)
           | Inr results \<Rightarrow>
               (let data = map shape_no_activity results
                in (Success \<lparr>resp_flag = ''no_activity'',
                      resp_description =
                        ''Approved jobs with no activity in pipeline for ''
                          @ str_int inactive_days @ ''+ days'',
                      resp_count = length data, resp_data = data,
                      inactive_days_threshold = inactive_days,
                      lookback_days = lookback\<rparr>, st))))"

section \<open>The all-priorities endpoint\<close>

text \<open>\<^verbatim>\<open>body.get("count", 0)\<close>: a failure body has no \<^verbatim>\<open>count\<close>.\<close>

definition get_count :: "('r, 'z) payload_scheme response \<Rightarrow> nat" where
  "get_count body = (case body of Success p \<Rightarrow> resp_count p | Failure e \<Rightarrow> 0)"

record breakdown =
  breakdown_new_ts_posting :: nat
  breakdown_less_than_6 :: nat
  breakdown_no_activity :: nat

record summary =
  total_clients_to_contact :: nat
  breakdown :: breakdown

record all_priorities =
  flags_new_ts_posting :: "new_ts_record lookback_payload response"
  flags_less_than_6 :: "less_than_6_record lookback_payload response"
  flags_no_activity :: "flag_record no_activity_payload response"
  summary :: summary

text \<open>
  The three calls in the order of the source, each on the state the one before left.
  None of them raises, so the handler of the outer \<^verbatim>\<open>try\<close> is never entered.
\<close>

definition get_all_high_priority_flags ::
  "string + connection \<Rightarrow> connection option \<Rightarrow> int
   \<Rightarrow> all_priorities response \<times> connection option" where
  "get_all_high_priority_flags factory poseidon days =
     (case get_new_ts_posting factory poseidon days of (new_ts, st1) \<Rightarrow>
      case get_less_than_6 factory st1 days of (less_6, st2) \<Rightarrow>
      case get_no_activity factory st2 7 days of (no_activity, st3) \<Rightarrow>
        (let total_count = get_count new_ts + get_count less_6 + get_count no_activity
         in (Success \<lparr>flags_new_ts_posting = new_ts, flags_less_than_6 = less_6,
               flags_no_activity = no_activity,
               summary = \<lparr>total_clients_to_contact = total_count,
                          breakdown = \<lparr>breakdown_new_ts_posting = get_count new_ts,
                                       breakdown_less_than_6 = get_count less_6,
                                       breakdown_no_activity = get_count no_activity\<rparr>\<rparr>\<rparr>,
             st3)))"

section \<open>Binding the query parameters\<close>

text \<open>
  The three handlers declare their parameters as \<^verbatim>\<open>days: int = Query(7, ...)\<close> and the
  like, and their \<^verbatim>\<open>try\<close> starts inside the body. A query parameter of a request is
  absent, a text that is an integer, or a text that is not; the handler is called with
  integers only, the default for an absent parameter, and is not called at all when a
  parameter is malformed: the framework answers such a request itself.
\<close>

datatype query_param = Absent | Given int | Malformed string

datatype 'a dispatch = Called 'a | NotCalled

definition bind_int :: "int \<Rightarrow> query_param \<Rightarrow> int option" where
  "bind_int dflt p =
     (case p of Absent \<Rightarrow> Some dflt | Given n \<Rightarrow> Some n | Malformed s \<Rightarrow> None)"

definition route_new_ts_posting ::
  "string + connection \<Rightarrow> connection option \<Rightarrow> query_param
   \<Rightarrow> new_ts_record lookback_payload response dispatch \<times> connection option" where
  "route_new_ts_posting factory poseidon days_param =
     (case bind_int 7 days_param of
        None \<Rightarrow> (NotCalled, poseidon)
      | Some days \<Rightarrow>
          (case get_new_ts_posting factory poseidon days of (body, st) \<Rightarrow> (Called body, st)))"

definition route_less_than_6 ::
  "string + connection \<Rightarrow> connection option \<Rightarrow> query_param
   \<Rightarrow> less_than_6_record lookback_payload response dispatch \<times> connection option" where
  "route_less_than_6 factory poseidon days_param =
     (case bind_int 30 days_param of
        None \<Rightarrow> (NotCalled, poseidon)
      | Some days \<Rightarrow>
          (case get_less_than_6 factory poseidon days of (body, st) \<Rightarrow> (Called body, st)))"

definition route_no_activity ::
  "string + connection \<Rightarrow> connection option \<Rightarrow> query_param \<Rightarrow> query_param
   \<Rightarrow> flag_record no_activity_payload response dispatch \<times> connection option" where
  "route_no_activity factory poseidon inactive_param lookback_param =
     (case bind_int 7 inactive_param of
        None \<Rightarrow> (NotCalled, poseidon)
      | Some inactive_days \<Rightarrow>
          (case bind_int 30 lookback_param of
             None \<Rightarrow> (NotCalled, poseidon)
           | Some lookback \<Rightarrow>
               (case get_no_activity factory poseidon inactive_days lookback of
                  (body, st) \<Rightarrow> (Called body, st))))"

section \<open>The client lookup\<close>

text \<open>
  \<^verbatim>\<open>mart_genomes mg LEFT JOIN mart_jobs mj ON mg.gg_id = mj.poster_gg_id\<close>: a poster
  without postings stays, with NULL in every column of \<open>mj\<close>.
\<close>

definition client_details_join :: "database \<Rightarrow> (genome \<times> job option) list" where
  "client_details_join db =
     concat (map (\<lambda>mg.
                (let mjs = filter (\<lambda>mj. holds (sql_eq (mg_gg_id mg) (mj_poster_gg_id mj)))
                                  (mart_jobs db)
                 in if mjs = [] then [(mg, None)] else map (\<lambda>mj. (mg, Some mj)) mjs))
             (mart_genomes db))"

definition column :: "(job \<Rightarrow> 'a option) \<Rightarrow> job option \<Rightarrow> 'a option" where
  "column f mj = (case mj of None \<Rightarrow> None | Some j \<Rightarrow> f j)"

text \<open>\<^verbatim>\<open>CASE WHEN mj.status = 'open' THEN mj.hash_id END\<close>.\<close>

definition open_hash_id :: "job option \<Rightarrow> string option" where
  "open_hash_id mj =
     (if holds (sql_eq (column mj_status mj) (Some ''open'')) then column mj_hash_id mj else None)"

definition group_key :: "genome \<Rightarrow> string option \<times> string option \<times> ident option" where
  "group_key mg = (mg_name mg, mg_email mg, mg_gg_id mg)"

text \<open>
  \<^verbatim>\<open>WHERE mg.email = '{email}' GROUP BY mg.name, mg.email, mg.gg_id\<close> with the five
  aggregates. SQL leaves the order of the groups open; here they come in table order.
\<close>

definition client_details_query :: "database \<Rightarrow> string \<Rightarrow> client_row list" where
  "client_details_query db email =
     (let rows = filter (\<lambda>(mg, mj). holds (sql_eq (mg_email mg) (Some email)))
                        (client_details_join db)
      in map (\<lambda>k.
                (let grp = map snd (filter (\<lambda>(mg, mj). group_key mg = k) rows)
                 in \<lparr>row_name = fst k, row_email = fst (snd k), row_gg_id = snd (snd k),
                     row_total_jobs = count_distinct (map (column mj_hash_id) grp),
                     row_open_jobs = count_distinct (map open_hash_id grp),
                     row_first_job_date = sql_min (map (column mj_published_date) grp),
                     row_last_job_date = sql_max (map (column mj_published_date) grp)\<rparr>))
             (remdups (map (\<lambda>(mg, mj). group_key mg) rows)))"

text \<open>
  The email is pasted between two quotes. With a quote or a backslash in it the text is
  no longer the statement above, and the answer is whatever the warehouse makes of that
  other text.
\<close>

definition plain_literal :: "string \<Rightarrow> bool" where
  "plain_literal email = list_all (\<lambda>c. c \<noteq> CHR 0x27 \<and> c \<noteq> CHR 0x5C) email"

definition execute_client_details :: "connection \<Rightarrow> string \<Rightarrow> string + client_row list" where
  "execute_client_details conn email =
     (case raises conn (ClientDetailsSql email) of
        Some e \<Rightarrow> Inl e
      | None \<Rightarrow> Inr (if plain_literal email then client_details_query (tables conn) email
                     else other_text conn email))"

record client_data =
  name :: "string option"
  email :: "string option"
  gg_id :: "ident option"
  total_jobs_posted :: nat
  open_jobs :: nat
  first_job_date :: "timestamp option"
  last_job_date :: "timestamp option"

text \<open>A handler returns a body or raises \<^verbatim>\<open>HTTPException(status_code, detail)\<close>.\<close>

datatype 'a http = Returned 'a | HTTPException nat string

definition get_client_details ::
  "string + connection \<Rightarrow> connection option \<Rightarrow> string
   \<Rightarrow> client_data response http \<times> connection option" where
  "get_client_details factory poseidon email_arg =
     (case get_poseidon factory poseidon of
        (Inl e, st) \<Rightarrow> (Returned (Failure e), st)
      | (Inr conn, st) \<Rightarrow>
          (case execute_client_details conn email_arg of
             Inl e \<Rightarrow> (Returned (Failure e), st)
           | Inr results \<Rightarrow>
               (if length results = 0 then (HTTPException 404 ''Cliente no encontrado'', st)
                else (let r = results ! 0
                      in (Returned (Success
                            \<lparr>name = row_name r, email = row_email r, gg_id = row_gg_id r,
                             total_jobs_posted = row_total_jobs r, open_jobs = row_open_jobs r,
                             first_job_date = row_first_job_date r,
                             last_job_date = row_last_job_date r\<rparr>), st)))))"

section \<open>The health check, the routes and the industry listing\<close>

record health =
  status :: string
  service :: string
  timestamp :: string
  version :: string
  available_flags :: "string list"

text \<open>The argument is what \<^verbatim>\<open>datetime.now().isoformat()\<close> gives at the call.\<close>

definition health_check :: "string \<Rightarrow> health" where
  "health_check now =
     \<lparr>status = ''running'', service = ''Torre Automation API'', timestamp = now,
      version = ''2.0.0'',
      available_flags = [''new-ts-posting'', ''less-than-6'', ''less-than-6-24h'', ''6-ruled-out'',
                         ''less-than-6-reach'', ''new-reach'', ''no-activity'']\<rparr>"

text \<open>The paths of the \<^verbatim>\<open>@app.get\<close> decorators, in file order.\<close>

definition routes :: "string list" where
  "routes = [''/'', ''/flags/new-ts-posting'', ''/flags/less-than-6'', ''/flags/no-activity'',
             ''/flags/all-priorities'', ''/client/{email}'', ''/industries'']"

definition flag_route :: "string \<Rightarrow> string" where
  "flag_route flag_name = ''/flags/'' @ flag_name"

record industry_info =
  display_name :: string
  keyword_list :: "string list"

text \<open>
  The \<^verbatim>\<open>industries\<close> dictionary of \<^verbatim>\<open>GET /industries\<close>, in the order it is written;
  the keys \<^verbatim>\<open>name\<close> and \<^verbatim>\<open>keywords\<close> are the fields \<open>display_name\<close> and \<open>keyword_list\<close>.
\<close>

definition get_available_industries :: "(string \<times> industry_info) list" where
  "get_available_industries =
     [(''technology'', \<lparr>display_name = ''Technology'',
         keyword_list = [''developer'', ''engineer'', ''software'', ''tech'', ''data'', ''cloud'']\<rparr>),
      (''sales_marketing'', \<lparr>display_name = ''Sales & Marketing'',
         keyword_list = [''sales'', ''marketing'', ''account'', ''growth'']\<rparr>),
      (''finance'', \<lparr>display_name = ''Finance'',
         keyword_list = [''finance'', ''accountant'', ''financial'', ''cfo'']\<rparr>),
      (''healthcare'', \<lparr>display_name = ''Healthcare'',
         keyword_list = [''health'', ''medical'', ''doctor'', ''nurse'']\<rparr>),
      (''design'', \<lparr>display_name = ''Design'',
         keyword_list = [''design'', ''ux'', ''ui'', ''graphic'', ''creative'']\<rparr>),
      (''operations_hr'', \<lparr>display_name = ''Operations & HR'',
         keyword_list = [''hr'', ''operations'', ''admin'']\<rparr>),
      (''customer_service'', \<lparr>display_name = ''Customer Service'',
         keyword_list = [''customer'', ''support'', ''service'']\<rparr>),
      (''general'', \<lparr>display_name = ''General'', keyword_list = []\<rparr>)]"

definition listed_keywords :: "string \<Rightarrow> string list option" where
  "listed_keywords category = map_option keyword_list (map_of get_available_industries category)"

text \<open>The keyword list that \<^verbatim>\<open>detect_industry\<close> tests for a category; none for \<open>general\<close>.\<close>

definition tested_keywords :: "string \<Rightarrow> string list option" where
  "tested_keywords category =
     (if category = ''general'' then Some [] else map_of priority_order category)"

section \<open>The flag conditions in the specification's words\<close>

text \<open>The window \<open>[today - N days, today + 1 day)\<close> on a publish timestamp.\<close>

definition in_lookback_window :: "database \<Rightarrow> int \<Rightarrow> timestamp option \<Rightarrow> bool" where
  "in_lookback_window db n t =
     (case t of None \<Rightarrow> False
      | Some x \<Rightarrow> date_ts (current_date db) - interval_days n \<le> x
                  \<and> x < date_ts (current_date db) + interval_days 1)"

text \<open>The business line is not \<open>torre_os\<close>, or is absent.\<close>

definition not_torre_os :: "job \<Rightarrow> bool" where
  "not_torre_os mj = (case mj_business_line mj of None \<Rightarrow> True | Some b \<Rightarrow> b \<noteq> ''torre_os'')"

definition fewer_than_6 :: "job \<Rightarrow> bool" where
  "fewer_than_6 mj = (case mj_valuable_appls mj of None \<Rightarrow> False | Some n \<Rightarrow> n < 6)"

definition less_than_6_as_stated :: "database \<Rightarrow> int \<Rightarrow> job \<Rightarrow> bool" where
  "less_than_6_as_stated db days mj =
     (mj_review mj = Some ''approved'' \<and> mj_status mj = Some ''open'' \<and> fewer_than_6 mj
      \<and> not_torre_os mj \<and> in_lookback_window db days (mj_published_date mj))"

text \<open>The activity rows of a posting, and the posting has none.\<close>

definition activity_rows :: "database \<Rightarrow> job \<Rightarrow> application list" where
  "activity_rows db mj =
     filter (\<lambda>ma. holds (sql_eq (mj_opportunity_id mj) (ma_opportunity_id ma)))
            (mart_applications db)"

definition no_activity_as_stated :: "database \<Rightarrow> int \<Rightarrow> job \<Rightarrow> bool" where
  "no_activity_as_stated db lookback mj =
     (activity_rows db mj = [] \<and> mj_review mj = Some ''approved'' \<and> mj_status mj = Some ''open''
      \<and> not_torre_os mj \<and> in_lookback_window db lookback (mj_published_date mj))"

text \<open>
  The derived value in the specification's words: over the activity rows of the posting,
  the maximum of the greater of the two timestamps, a missing one counted as the epoch;
  absent when the posting has no activity row.
\<close>

definition event_time :: "application \<Rightarrow> timestamp" where
  "event_time ma = max (case ma_disqualified_date ma of None \<Rightarrow> epoch | Some t \<Rightarrow> t)
                       (case ma_mm_date ma of None \<Rightarrow> epoch | Some t \<Rightarrow> t)"

definition latest_event :: "database \<Rightarrow> job \<Rightarrow> timestamp option" where
  "latest_event db mj =
     (if activity_rows db mj = [] then None
      else Some (Max (set (map event_time (activity_rows db mj)))))"

text \<open>A poster profile carries the posting's poster identifier.\<close>

definition has_poster :: "database \<Rightarrow> job \<Rightarrow> bool" where
  "has_poster db mj =
     list_ex (\<lambda>mg. holds (sql_eq (mj_poster_gg_id mj) (mg_gg_id mg))) (mart_genomes db)"

text \<open>The postings behind the rows of a flag: the first components of the matches.\<close>

definition less_than_6_postings :: "database \<Rightarrow> int \<Rightarrow> job list" where
  "less_than_6_postings db days = map fst (less_than_6_matches db days)"

definition new_ts_posting_postings :: "database \<Rightarrow> int \<Rightarrow> job list" where
  "new_ts_posting_postings db days = map fst (new_ts_posting_matches db days)"

definition no_activity_postings :: "database \<Rightarrow> int \<Rightarrow> int \<Rightarrow> job list" where
  "no_activity_postings db inactive_days lookback =
     map fst (no_activity_matches db inactive_days lookback)"

section \<open>Result shaping and counts in the specification's words\<close>


text \<open>The count a sub-flag contributes: the number of its records, and 0 when it failed.\<close>

definition failed_as_zero :: "('r, 'z) payload_scheme response \<Rightarrow> nat" where
  "failed_as_zero body = (case body of Success p \<Rightarrow> length (resp_data p) | Failure e \<Rightarrow> 0)"

text \<open>
  The client summary in the specification's words: the postings of a poster, the number
  of different postings and of different open postings, and the first and last publish
  date, absent when there is none.
\<close>

definition postings_of :: "database \<Rightarrow> ident option \<Rightarrow> job list" where
  "postings_of db g = filter (\<lambda>mj. holds (sql_eq g (mj_poster_gg_id mj))) (mart_jobs db)"

definition total_postings :: "database \<Rightarrow> ident option \<Rightarrow> nat" where
  "total_postings db g = card (set (List.map_filter mj_hash_id (postings_of db g)))"

definition open_postings :: "database \<Rightarrow> ident option \<Rightarrow> nat" where
  "open_postings db g =
     card (set (List.map_filter mj_hash_id
                  (filter (\<lambda>mj. mj_status mj = Some ''open'') (postings_of db g))))"

definition first_publish :: "database \<Rightarrow> ident option \<Rightarrow> timestamp option" where
  "first_publish db g =
     (let ts = List.map_filter mj_published_date (postings_of db g)
      in if ts = [] then None else Some (Min (set ts)))"

definition last_publish :: "database \<Rightarrow> ident option \<Rightarrow> timestamp option" where
  "last_publish db g =
     (let ts = List.map_filter mj_published_date (postings_of db g)
      in if ts = [] then None else Some (Max (set ts)))"

definition has_email :: "database \<Rightarrow> string \<Rightarrow> bool" where
  "has_email db e = list_ex (\<lambda>mg. mg_email mg = Some e) (mart_genomes db)"

section \<open>Sample data\<close>

definition sample_job :: job where
  "sample_job =
     \<lparr>mj_objective = Some ''Sales Engineer'', mj_hash_id = Some ''aB3xY'', mj_locale = Some ''en'',
      mj_published_date = Some (date_ts 20000 + 3600), mj_organization_name = None,
      mj_poster_gg_id = Some 41, mj_status = Some ''open'', mj_review = Some ''approved'',
      mj_valuable_appls = Some 5, mj_business_line = None,
      mj_poster_first_post = Some (date_ts 20000 + 3600), mj_opportunity_id = Some 7\<rparr>"

definition sample_poster :: genome where
  "sample_poster = \<lparr>mg_name = Some ''Ana'', mg_email = Some ''ana@acme.io'', mg_gg_id = Some 41\<rparr>"

definition sample_db :: database where
  "sample_db = \<lparr>mart_jobs = [sample_job], mart_genomes = [sample_poster],
                mart_applications = [], current_date = 20000\<rparr>"

text \<open>The same posting in a warehouse that has no profile of its poster.\<close>

definition orphan_db :: database where
  "orphan_db = \<lparr>mart_jobs = [sample_job], mart_genomes = [],
                mart_applications = [], current_date = 20000\<rparr>"

text \<open>The same posting with a publish date two days after today.\<close>

definition future_job :: job where
  "future_job = sample_job\<lparr>mj_published_date := Some (date_ts 20002),
                             mj_poster_first_post := Some (date_ts 20002)\<rparr>"

definition future_db :: database where
  "future_db = \<lparr>mart_jobs = [future_job], mart_genomes = [sample_poster],
                mart_applications = [], current_date = 20000\<rparr>"

definition quiet :: "database \<Rightarrow> connection" where
  "quiet db = \<lparr>raises = (\<lambda>q. None), tables = db, other_text = (\<lambda>t. [])\<rparr>"

text \<open>A second posting with six valuable applicants, beside the first.\<close>

definition six_job :: job where
  "six_job = sample_job\<lparr>mj_hash_id := Some ''zQ9wK'', mj_valuable_appls := Some 6\<rparr>"

definition pair_db :: database where
  "pair_db = \<lparr>mart_jobs = [sample_job, six_job], mart_genomes = [sample_poster],
              mart_applications = [], current_date = 20000\<rparr>"

text \<open>
  The posting with four application rows in the warehouse: two of its own, one of another
  posting and one without an opportunity.
\<close>

definition busy_db :: database where
  "busy_db = \<lparr>mart_jobs = [sample_job], mart_genomes = [sample_poster],
              mart_applications =
                [\<lparr>ma_opportunity_id = Some 7, ma_disqualified_date = Some (date_ts 19990),
                  ma_mm_date = None\<rparr>,
                 \<lparr>ma_opportunity_id = Some 7, ma_disqualified_date = None,
                  ma_mm_date = Some (date_ts 19999)\<rparr>,
                 \<lparr>ma_opportunity_id = Some 8, ma_disqualified_date = Some (date_ts 20000),
                  ma_mm_date = Some (date_ts 20000)\<rparr>,
                 \<lparr>ma_opportunity_id = None, ma_disqualified_date = None, ma_mm_date = None\<rparr>],
              current_date = 20000\<rparr>"

text \<open>A connection on which the less\_than\_6 statement raises.\<close>

definition flaky :: "database \<Rightarrow> connection" where
  "flaky db = \<lparr>raises = (\<lambda>q. case q of LessThan6Sql d \<Rightarrow> Some ''relation does not exist''
                                | _ \<Rightarrow> None),
               tables = db, other_text = (\<lambda>t. [])\<rparr>"


text \<open>A poster with three postings, two of them open, and a second poster with one.\<close>

definition client_db :: database where
  "client_db =
     \<lparr>mart_jobs =
        [sample_job,
         sample_job\<lparr>mj_hash_id := Some ''k82Lm'', mj_published_date := Some (date_ts 19990)\<rparr>,
         sample_job\<lparr>mj_hash_id := Some ''Zr41c'', mj_published_date := Some (date_ts 19995),
                     mj_status := Some ''closed''\<rparr>,
         sample_job\<lparr>mj_hash_id := Some ''p0Qe7'', mj_poster_gg_id := Some 42\<rparr>],
      mart_genomes =
        [sample_poster,
         \<lparr>mg_name = Some ''Eve'', mg_email = Some ''eve@corp.io'', mg_gg_id = Some 42\<rparr>],
      mart_applications = [], current_date = 20000\<rparr>"

text \<open>
  A poster whose email has an apostrophe. Pasted between the two quotes of the statement,
  the email ends the literal after its first letter, and the warehouse raises on the
  text that follows.
\<close>

definition quoted_email :: string where
  "quoted_email = ''o'' @ [CHR 0x27] @ ''brien@acme.io''"

definition quoted_db :: database where
  "quoted_db =
     \<lparr>mart_jobs = [sample_job],
      mart_genomes = [\<lparr>mg_name = Some ''Pat'', mg_email = Some quoted_email, mg_gg_id = Some 41\<rparr>],
      mart_applications = [], current_date = 20000\<rparr>"

definition quoted_conn :: connection where
  "quoted_conn =
     \<lparr>raises = (\<lambda>q. if q = ClientDetailsSql quoted_email
                      then Some ''syntax error at or near brien'' else None),
      tables = quoted_db, other_text = (\<lambda>t. [])\<rparr>"

text \<open>
  An email that closes the literal and goes on with \<^verbatim>\<open>OR '1'='1\<close>. The condition of
  the statement is then true of every row, and the warehouse returns the group of every
  poster.
\<close>

definition injected_email :: string where
  "injected_email = ''x'' @ [CHR 0x27] @ '' OR '' @ [CHR 0x27] @ ''1'' @ [CHR 0x27] @ ''=''
                      @ [CHR 0x27] @ ''1''"

definition injected_conn :: connection where
  "injected_conn =
     \<lparr>raises = (\<lambda>q. None), tables = client_db,
      other_text = (\<lambda>t. if t = injected_email
                          then client_details_query client_db ''ana@acme.io''
                               @ client_details_query client_db ''eve@corp.io''
                          else [])\<rparr>"

section \<open>Substring search\<close>

lemma starts_with_prefix: "starts_with w t = prefix w t"
  by (induction w t rule: starts_with.induct) auto

lemma str_in_sublist: "str_in w t = sublist w t"
  by (induction t) (auto simp: starts_with_prefix sublist_Cons_right)

lemma any_in_sublist: "any_in ws t = list_ex (\<lambda>w. sublist w t) ws"
  by (simp add: any_in_def str_in_sublist)

lemma str_in_occurs: "str_in w t \<longleftrightarrow> (\<exists>before after. t = before @ w @ after)"
  by (simp add: str_in_sublist sublist_def)

section \<open>The classifier\<close>

text \<open>
  Claim C1, amended. \<open>detect_industry\<close> is a total function of two strings: it joins
  title and organization with one space between them, lowercases the result and returns
  the first category, in the order technology, sales\_marketing, finance, healthcare,
  design, operations\_hr, customer\_service, one of whose keywords occurs in the text, and
  \<open>general\<close> when no keyword occurs. The result is always one of the eight
  categories, two empty strings give \<open>general\<close>, and \<open>Sales Engineer\<close> at
  \<open>Acme\<close> is \<open>technology\<close>.
\<close>

theorem detect_industry_first_match:
  "detect_industry title organization
     = first_match priority_order (lower (title @ '' '' @ organization))
   \<and> detect_industry title organization \<in> set categories
   \<and> detect_industry [] [] = ''general''
   \<and> detect_industry ''Sales Engineer'' ''Acme'' = ''technology''"
proof -
  have table: "detect_industry title organization
     = first_match priority_order (lower (title @ '' '' @ organization))"
    by (simp add: detect_industry_def priority_order_def any_in_sublist Let_def)
  have total: "detect_industry title organization \<in> set categories"
    by (simp add: detect_industry_def categories_def Let_def)
  have empty: "detect_industry [] [] = ''general''"
    by code_simp
  have sales: "detect_industry ''Sales Engineer'' ''Acme'' = ''technology''"
    by code_simp
  from table total empty sales show ?thesis by blast
qed

theorem detect_industry_first_match_witness:
  "detect_industry ''Chrome Plater'' ''Acme'' = first_match priority_order ''chrome plater acme''
   \<and> detect_industry ''Chrome Plater'' ''Acme'' = ''operations_hr''"
proof -
  have l: "lower (''Chrome Plater'' @ '' '' @ ''Acme'') = ''chrome plater acme''"
    by code_simp
  have v: "detect_industry ''Chrome Plater'' ''Acme'' = ''operations_hr''"
    by code_simp
  have "detect_industry ''Chrome Plater'' ''Acme''
          = first_match priority_order (lower (''Chrome Plater'' @ '' '' @ ''Acme''))"
    using detect_industry_first_match [of "''Chrome Plater''" "''Acme''"] by (rule conjunct1)
  then have "detect_industry ''Chrome Plater'' ''Acme'' = first_match priority_order ''chrome plater acme''"
    unfolding l .
  from this v show ?thesis by (rule conjI)
qed

text \<open>
  Claim C1 as it is written, with title and organization concatenated directly, is not
  what the code computes: for \<open>human\<close> and \<open>resources\<close> the direct concatenation
  holds no keyword, while the code's text \<open>human resources\<close> is a keyword of
  operations\_hr.
\<close>

theorem plain_concatenation_counterexample:
  "classify_as_stated ''human'' ''resources'' = ''general''
   \<and> detect_industry ''human'' ''resources'' = ''operations_hr''"
  by code_simp

section \<open>The industry listing\<close>

text \<open>
  What the listing and the classifier share: the listing has exactly the eight
  categories, in the classifier's order, and every keyword it gives for a category is
  one the classifier tests for that category, in the same order.
\<close>

lemma industries_listing:
  "map fst get_available_industries = categories
   \<and> list_all (\<lambda>c. case listed_keywords c of None \<Rightarrow> False
        | Some listed \<Rightarrow> (case tested_keywords c of None \<Rightarrow> False
            | Some tested \<Rightarrow> subseq listed tested)) categories
   \<and> listed_keywords ''design'' = tested_keywords ''design''
   \<and> listed_keywords ''general'' = tested_keywords ''general''"
  by code_simp

text \<open>
  Claim C6 says that the keyword list of the listing equals, for each category, the list
  the classifier tests. The two copies of the table in the code differ in six of the
  eight categories: the listing lacks \<open>programmer\<close>, \<open>devops\<close>, \<open>frontend\<close>,
  \<open>backend\<close>, \<open>business development\<close>, \<open>controller\<close>, \<open>clinical\<close>,
  \<open>human resources\<close> and \<open>success\<close>. \<open>Programmer\<close> at \<open>Acme\<close> is classified
  as technology although no keyword the listing shows for technology occurs in it.
\<close>

theorem industries_listing_drift:
  "filter (\<lambda>c. listed_keywords c \<noteq> tested_keywords c) categories
     = [''technology'', ''sales_marketing'', ''finance'', ''healthcare'', ''operations_hr'',
        ''customer_service'']
   \<and> listed_keywords ''technology''
     = Some [''developer'', ''engineer'', ''software'', ''tech'', ''data'', ''cloud'']
   \<and> tested_keywords ''technology''
     = Some [''developer'', ''engineer'', ''software'', ''programmer'', ''tech'', ''data'',
             ''cloud'', ''devops'', ''frontend'', ''backend'']
   \<and> detect_industry ''Programmer'' ''Acme'' = ''technology''
   \<and> any_in (the (listed_keywords ''technology'')) (lower ''Programmer Acme'') = False"
  by code_simp

section \<open>The health check\<close>

text \<open>
  Claim C10. Whatever the time of the call, the health check returns the same seven
  flag names; four of them, \<open>less-than-6-24h\<close>, \<open>6-ruled-out\<close>,
  \<open>less-than-6-reach\<close> and \<open>new-reach\<close>, name no route of the service, and the
  route \<open>/flags/all-priorities\<close> exists but is not in the list.
\<close>

theorem health_check_flags:
  "available_flags (health_check now)
     = [''new-ts-posting'', ''less-than-6'', ''less-than-6-24h'', ''6-ruled-out'',
        ''less-than-6-reach'', ''new-reach'', ''no-activity'']
   \<and> filter (\<lambda>n. flag_route n \<notin> set routes) (available_flags (health_check now))
     = [''less-than-6-24h'', ''6-ruled-out'', ''less-than-6-reach'', ''new-reach'']
   \<and> flag_route ''all-priorities'' \<in> set routes
   \<and> ''all-priorities'' \<notin> set (available_flags (health_check now))"
proof -
  have flags: "available_flags (health_check now)
     = [''new-ts-posting'', ''less-than-6'', ''less-than-6-24h'', ''6-ruled-out'',
        ''less-than-6-reach'', ''new-reach'', ''no-activity'']"
    by (simp add: health_check_def)
  have dead: "filter (\<lambda>n. flag_route n \<notin> set routes)
        [''new-ts-posting'', ''less-than-6'', ''less-than-6-24h'', ''6-ruled-out'',
         ''less-than-6-reach'', ''new-reach'', ''no-activity'']
     = [''less-than-6-24h'', ''6-ruled-out'', ''less-than-6-reach'', ''new-reach'']"
    by code_simp
  have all: "flag_route ''all-priorities'' \<in> set routes"
    by code_simp
  have absent: "''all-priorities'' \<notin> set [''new-ts-posting'', ''less-than-6'', ''less-than-6-24h'',
        ''6-ruled-out'', ''less-than-6-reach'', ''new-reach'', ''no-activity'']"
    by code_simp
  from flags dead all absent show ?thesis by simp
qed

theorem health_check_flags_witness:
  "available_flags (health_check ''2026-01-01T00:00:00'') = available_flags (health_check [])
   \<and> length (available_flags (health_check [])) = 7"
  using health_check_flags [of "''2026-01-01T00:00:00''"] health_check_flags [of "[]"]
  by simp

section \<open>Conditions that hold\<close>

lemma holds_sql_and: "holds (sql_and p q) \<longleftrightarrow> holds p \<and> holds q"
  by (cases p; cases q) (auto simp: holds_def sql_and_def)

lemma holds_sql_or: "holds (sql_or p q) \<longleftrightarrow> holds p \<or> holds q"
  by (cases p; cases q) (auto simp: holds_def sql_or_def)

lemma holds_sql_eq: "holds (sql_eq a b) \<longleftrightarrow> (\<exists>x. a = Some x \<and> b = Some x)"
  by (cases a; cases b) (auto simp: holds_def sql_eq_def)

lemma holds_sql_eq_Some: "holds (sql_eq a (Some v)) \<longleftrightarrow> a = Some v"
  by (cases a) (auto simp: holds_def sql_eq_def)

lemma holds_sql_ne_Some: "holds (sql_ne a (Some v)) \<longleftrightarrow> (\<exists>x. a = Some x \<and> x \<noteq> v)"
  by (cases a) (auto simp: holds_def sql_ne_def)

lemma holds_sql_lt_Some: "holds (sql_lt a (Some v)) \<longleftrightarrow> (\<exists>x. a = Some x \<and> x < v)"
  by (cases a) (auto simp: holds_def sql_lt_def)

lemma holds_sql_ge_Some: "holds (sql_ge a (Some v)) \<longleftrightarrow> (\<exists>x. a = Some x \<and> v \<le> x)"
  by (cases a) (auto simp: holds_def sql_ge_def)

lemma holds_is_null: "holds (is_null a) \<longleftrightarrow> a = None"
  by (simp add: holds_def is_null_def)

lemmas holds_simps = holds_sql_and holds_sql_or holds_sql_eq_Some holds_sql_ne_Some
  holds_sql_lt_Some holds_sql_ge_Some holds_is_null

lemma holds_business_line:
  "holds (sql_or (sql_ne (mj_business_line mj) (Some ''torre_os'')) (is_null (mj_business_line mj)))
     \<longleftrightarrow> not_torre_os mj"
  by (cases "mj_business_line mj") (simp_all add: holds_simps not_torre_os_def)

lemma holds_window:
  "holds (sql_ge t (Some (date_ts (current_date db) - interval_days n)))
   \<and> holds (sql_lt t (Some (date_ts (current_date db) + interval_days 1)))
     \<longleftrightarrow> in_lookback_window db n t"
  by (cases t) (simp_all add: holds_simps in_lookback_window_def)

lemma holds_less_than_6_where:
  "holds (less_than_6_where db days mj) \<longleftrightarrow> less_than_6_as_stated db days mj"
proof -
  have six: "holds (sql_lt (mj_valuable_appls mj) (Some 6)) \<longleftrightarrow> fewer_than_6 mj"
    by (cases "mj_valuable_appls mj") (simp_all add: holds_sql_lt_Some fewer_than_6_def)
  show ?thesis
    unfolding less_than_6_where_def less_than_6_as_stated_def holds_sql_and
      holds_business_line holds_sql_eq_Some six
    using holds_window [of "mj_published_date mj" db days] by blast
qed

lemma set_jobs_with_posters:
  "(mj, mg) \<in> set (jobs_with_posters db)
     \<longleftrightarrow> mj \<in> set (mart_jobs db) \<and> mg \<in> set (mart_genomes db)
         \<and> holds (sql_eq (mj_poster_gg_id mj) (mg_gg_id mg))"
  by (auto simp: jobs_with_posters_def)

lemma joined_posting:
  "(\<exists>mg. (mj, mg) \<in> set (jobs_with_posters db)) \<longleftrightarrow> mj \<in> set (mart_jobs db) \<and> has_poster db mj"
  by (auto simp: set_jobs_with_posters has_poster_def list_ex_iff)

lemma less_than_6_postings_iff:
  "mj \<in> set (less_than_6_postings db days)
     \<longleftrightarrow> mj \<in> set (mart_jobs db) \<and> has_poster db mj \<and> less_than_6_as_stated db days mj"
proof -
  have "mj \<in> set (less_than_6_postings db days)
          \<longleftrightarrow> (\<exists>mg. (mj, mg) \<in> set (jobs_with_posters db)) \<and> less_than_6_as_stated db days mj"
    by (auto simp: less_than_6_postings_def less_than_6_matches_def holds_less_than_6_where
        image_iff)
  then show ?thesis by (simp add: joined_posting)
qed

lemma set_order_by_published_desc: "set (order_by_published_desc rows) = set rows"
  by (simp add: order_by_published_desc_def)

lemma length_order_by_published_desc: "length (order_by_published_desc rows) = length rows"
  by (simp add: order_by_published_desc_def)

lemma set_less_than_6_query:
  "set (less_than_6_query db days) = less_than_6_select ` set (less_than_6_matches db days)"
  by (simp add: less_than_6_query_def set_order_by_published_desc)

section \<open>The less\_than\_6 flag\<close>

text \<open>
  Claim C4, amended. A posting is behind a row of the less\_than\_6 flag exactly when it
  is a posting of the warehouse, some poster profile carries its poster identifier, and
  review = approved, status = open, the valuable applicant count is below 6, the
  business line is not torre\_os or is absent, and the publish date is inside
  \<open>[today - N days, today + 1 day)\<close>. The rows of the flag are the selected columns
  of these matches.
\<close>

theorem less_than_6_inclusion:
  "(mj \<in> set (less_than_6_postings db days)
      \<longleftrightarrow> mj \<in> set (mart_jobs db) \<and> has_poster db mj \<and> less_than_6_as_stated db days mj)
   \<and> set (less_than_6_query db days) = less_than_6_select ` set (less_than_6_matches db days)"
  using less_than_6_postings_iff [of mj db days] set_less_than_6_query [of db days]
  by (rule conjI)

text \<open>With five valuable applicants the posting is in, with six it is out.\<close>

theorem less_than_6_inclusion_witness:
  "sample_job \<in> set (less_than_6_postings pair_db 30)
   \<and> six_job \<notin> set (less_than_6_postings pair_db 30)
   \<and> mj_valuable_appls sample_job = Some 5 \<and> mj_valuable_appls six_job = Some 6
   \<and> less_than_6_query pair_db 30 = [less_than_6_select (sample_job, sample_poster)]"
proof -
  have five: "sample_job \<in> set (mart_jobs pair_db) \<and> has_poster pair_db sample_job
      \<and> less_than_6_as_stated pair_db 30 sample_job"
    by code_simp
  have six: "\<not> less_than_6_as_stated pair_db 30 six_job"
    by code_simp
  have vals: "mj_valuable_appls sample_job = Some 5 \<and> mj_valuable_appls six_job = Some 6"
    by code_simp
  have rows: "less_than_6_query pair_db 30 = [less_than_6_select (sample_job, sample_poster)]"
    by code_simp
  from five less_than_6_inclusion [of sample_job pair_db 30]
  have a: "sample_job \<in> set (less_than_6_postings pair_db 30)" by blast
  from six less_than_6_inclusion [of six_job pair_db 30]
  have b: "six_job \<notin> set (less_than_6_postings pair_db 30)" by blast
  from a b vals rows show ?thesis by blast
qed

text \<open>
  Claim C4 as it is written fails on a posting whose poster has no profile: every
  condition of the claim holds, and the inner join leaves the flag empty.
\<close>

theorem less_than_6_orphan_counterexample:
  "sample_job \<in> set (mart_jobs orphan_db)
   \<and> less_than_6_as_stated orphan_db 30 sample_job
   \<and> less_than_6_postings orphan_db 30 = []
   \<and> less_than_6_query orphan_db 30 = []"
  by code_simp

section \<open>The no\_activity flag\<close>

lemma sql_max_Some:
  "xs \<noteq> [] \<Longrightarrow> sql_max (map (\<lambda>x. Some (f x)) xs) = Some (Max (set (map f xs)))"
proof (induction xs)
  case Nil
  then show ?case by simp
next
  case (Cons x xs)
  show ?case
  proof (cases "xs = []")
    case True
    then show ?thesis by simp
  next
    case False
    with Cons.IH have "sql_max (map (\<lambda>x. Some (f x)) xs) = Some (Max (set (map f xs)))"
      by simp
    moreover from False have "Max (insert (f x) (set (map f xs))) = max (f x) (Max (set (map f xs)))"
      by (simp add: Max_insert)
    ultimately show ?thesis by simp
  qed
qed

lemma greatest_event_time:
  "greatest (coalesce (ma_disqualified_date ma) epoch) (coalesce (ma_mm_date ma) epoch)
     = event_time ma"
  by (simp add: greatest_def coalesce_def event_time_def max_def)

lemma filter_eq_distinct:
  "distinct xs \<Longrightarrow> filter (\<lambda>i. i = x) xs = (if x \<in> set xs then [x] else [])"
  by (induction xs) auto

lemma activity_rows_Some:
  "mj_opportunity_id mj = Some oid
   \<Longrightarrow> activity_rows db mj = filter (\<lambda>ma. ma_opportunity_id ma = Some oid) (mart_applications db)"
  by (simp add: activity_rows_def holds_sql_eq cong: filter_cong)

lemma activity_lookup:
  "filter (\<lambda>a. holds (sql_eq (mj_opportunity_id mj) (act_opportunity_id a))) (activity_subquery db)
     = (if activity_rows db mj = [] then []
        else [\<lparr>act_opportunity_id = mj_opportunity_id mj, last_activity = latest_event db mj\<rparr>])"
proof (cases "mj_opportunity_id mj")
  case None
  then show ?thesis by (simp add: holds_sql_eq activity_rows_def)
next
  case (Some oid)
  let ?ids = "map ma_opportunity_id (mart_applications db)"
  let ?rows = "filter (\<lambda>ma. ma_opportunity_id ma = Some oid) (mart_applications db)"
  let ?group = "\<lambda>k. \<lparr>act_opportunity_id = k,
               last_activity = sql_max (map (\<lambda>ma. Some (event_time ma))
                  (filter (\<lambda>ma. ma_opportunity_id ma = k) (mart_applications db)))\<rparr>"
  have rows: "activity_rows db mj = ?rows"
    using Some by (rule activity_rows_Some)
  have empty: "?rows = [] \<longleftrightarrow> Some oid \<notin> set ?ids"
    by (force simp: filter_empty_conv)
  have pick: "filter (\<lambda>i. i = Some oid) (remdups ?ids) = (if Some oid \<in> set ?ids then [Some oid] else [])"
    using filter_eq_distinct [of "remdups ?ids" "Some oid"] by simp
  have cond: "holds (sql_eq (mj_opportunity_id mj) (act_opportunity_id a))
                \<longleftrightarrow> act_opportunity_id a = Some oid" for a
    unfolding Some holds_sql_eq by auto
  have sub: "activity_subquery db = map ?group (remdups ?ids)"
    by (simp add: activity_subquery_def greatest_event_time)
  have "filter (\<lambda>a. holds (sql_eq (mj_opportunity_id mj) (act_opportunity_id a))) (activity_subquery db)
      = filter (\<lambda>a. act_opportunity_id a = Some oid) (map ?group (remdups ?ids))"
    unfolding cond sub ..
  also have "\<dots> = map ?group (filter (\<lambda>i. i = Some oid) (remdups ?ids))"
    by (simp add: filter_map comp_def)
  also have "\<dots> = (if ?rows = [] then []
        else [\<lparr>act_opportunity_id = Some oid, last_activity = Some (Max (set (map event_time ?rows)))\<rparr>])"
    unfolding pick using empty by (simp add: sql_max_Some)
  finally show ?thesis
    unfolding rows latest_event_def Some by simp
qed

lemma concat_pair_singletons: "concat (map (\<lambda>(a, b). [g a b]) xs) = map (\<lambda>(a, b). g a b) xs"
  by (induction xs) auto

lemma no_activity_join_eq:
  "no_activity_join db = map (\<lambda>(mj, mg). (mj, mg, latest_event db mj)) (jobs_with_posters db)"
proof -
  have eq: "(\<lambda>(mj, mg). let acts = filter (\<lambda>a. holds (sql_eq (mj_opportunity_id mj) (act_opportunity_id a)))
                                   (activity_subquery db)
                 in if acts = [] then [(mj, mg, None)]
                    else map (\<lambda>a. (mj, mg, last_activity a)) acts)
        = (\<lambda>(mj, mg). [(mj, mg, latest_event db mj)])"
    by (auto simp: fun_eq_iff activity_lookup latest_event_def Let_def)
  show ?thesis
    unfolding no_activity_join_def eq by (rule concat_pair_singletons)
qed

lemma no_activity_matches_eq:
  "no_activity_matches db inactive_days lookback
     = map (\<lambda>(mj, mg). (mj, mg, latest_event db mj))
         (filter (\<lambda>(mj, mg). holds (no_activity_where db inactive_days lookback mj
                                      (latest_event db mj)))
                 (jobs_with_posters db))"
  by (simp add: no_activity_matches_def no_activity_join_eq filter_map comp_def split_def)

lemma no_activity_postings_iff:
  "mj \<in> set (no_activity_postings db inactive_days lookback)
     \<longleftrightarrow> mj \<in> set (mart_jobs db) \<and> has_poster db mj
         \<and> holds (no_activity_where db inactive_days lookback mj (latest_event db mj))"
proof -
  have "no_activity_postings db inactive_days lookback
          = map fst (filter (\<lambda>(mj, mg). holds (no_activity_where db inactive_days lookback mj
                                                 (latest_event db mj)))
                            (jobs_with_posters db))"
    by (simp add: no_activity_postings_def no_activity_matches_eq comp_def split_def)
  then have "mj \<in> set (no_activity_postings db inactive_days lookback)
          \<longleftrightarrow> (\<exists>mg. (mj, mg) \<in> set (jobs_with_posters db))
              \<and> holds (no_activity_where db inactive_days lookback mj (latest_event db mj))"
    by (auto simp: image_iff)
  then show ?thesis by (simp add: joined_posting)
qed

lemma no_activity_where_quiet:
  assumes "no_activity_as_stated db lookback mj"
  shows "holds (no_activity_where db inactive_days lookback mj (latest_event db mj))"
proof -
  from assms have quiet: "latest_event db mj = None"
    by (simp add: no_activity_as_stated_def latest_event_def)
  from assms have "in_lookback_window db lookback (mj_published_date mj)"
    by (simp add: no_activity_as_stated_def)
  then have since: "holds (sql_ge (mj_published_date mj)
                      (Some (date_ts (current_date db) - interval_days lookback)))"
    using holds_window [of "mj_published_date mj" db lookback] by blast
  from assms have line: "holds (sql_or (sql_ne (mj_business_line mj) (Some ''torre_os''))
                                  (is_null (mj_business_line mj)))"
    by (simp add: no_activity_as_stated_def holds_business_line)
  from assms have state: "holds (sql_eq (mj_review mj) (Some ''approved''))"
      "holds (sql_eq (mj_status mj) (Some ''open''))"
    by (simp_all add: no_activity_as_stated_def holds_sql_eq_Some)
  have idle: "holds (sql_or (sql_lt None (Some (date_ts (current_date db)
                                - interval_days inactive_days))) (is_null None))"
    by (simp add: holds_sql_or holds_is_null)
  show ?thesis
    unfolding no_activity_where_def quiet holds_sql_and
    using state since line idle by blast
qed

lemma set_no_activity_query:
  "set (no_activity_query db inactive_days lookback)
     = no_activity_select ` set (no_activity_matches db inactive_days lookback)"
  by (simp add: no_activity_query_def set_order_by_published_desc)

text \<open>
  Claim C3, amended. A posting of the warehouse that has a poster profile, no activity
  row at all, review = approved, status = open, a business line that is not torre\_os or
  is absent, and a publish date inside the lookback window is behind a row of the
  no\_activity flag, for every inactivity threshold. The value joined onto each posting
  is \<open>latest_event\<close>: the maximum over the posting's activity rows of the greater of
  the two timestamps, a missing one counted as the epoch, and NULL when the posting has
  no activity row; the join keeps every posting.
\<close>

theorem no_activity_inclusion:
  "(mj \<in> set (mart_jobs db) \<and> has_poster db mj \<and> no_activity_as_stated db lookback mj
      \<longrightarrow> mj \<in> set (no_activity_postings db inactive_days lookback))
   \<and> no_activity_join db
       = map (\<lambda>(mj, mg). (mj, mg, latest_event db mj)) (jobs_with_posters db)
   \<and> set (no_activity_query db inactive_days lookback)
       = no_activity_select ` set (no_activity_matches db inactive_days lookback)"
proof -
  have "mj \<in> set (mart_jobs db) \<and> has_poster db mj \<and> no_activity_as_stated db lookback mj
      \<longrightarrow> mj \<in> set (no_activity_postings db inactive_days lookback)"
    using no_activity_where_quiet [of db lookback mj inactive_days]
    by (simp add: no_activity_postings_iff)
  then show ?thesis
    using no_activity_join_eq [of db] set_no_activity_query [of db inactive_days lookback]
    by blast
qed

theorem no_activity_inclusion_witness:
  "sample_job \<in> set (no_activity_postings sample_db 7 30)
   \<and> no_activity_join busy_db = [(sample_job, sample_poster, Some (date_ts 19999))]
   \<and> no_activity_postings busy_db 7 30 = []"
proof -
  have pre: "sample_job \<in> set (mart_jobs sample_db) \<and> has_poster sample_db sample_job
      \<and> no_activity_as_stated sample_db 30 sample_job"
    by code_simp
  have a: "sample_job \<in> set (no_activity_postings sample_db 7 30)"
    using pre no_activity_inclusion [of sample_job sample_db 30 7] by blast
  have joined: "jobs_with_posters busy_db = [(sample_job, sample_poster)]"
    by code_simp
  have latest: "latest_event busy_db sample_job = Some (date_ts 19999)"
    by (simp add: latest_event_def activity_rows_def busy_db_def sample_job_def holds_sql_eq
        event_time_def epoch_def date_ts_def)
  have b: "no_activity_join busy_db = [(sample_job, sample_poster, Some (date_ts 19999))]"
    using no_activity_inclusion [of sample_job busy_db 30 7] by (simp add: joined latest)
  have c: "no_activity_postings busy_db 7 30 = []"
    by code_simp
  from a b c show ?thesis by blast
qed

text \<open>
  Claim C3 as it is written fails on a posting whose poster has no profile: it has no
  activity row and meets every condition of the claim, and the flag is empty.
\<close>

theorem no_activity_orphan_counterexample:
  "sample_job \<in> set (mart_jobs orphan_db)
   \<and> no_activity_as_stated orphan_db 30 sample_job
   \<and> no_activity_postings orphan_db 7 30 = []
   \<and> no_activity_query orphan_db 7 30 = []"
  by code_simp

section \<open>The lookback window\<close>

text \<open>new\_ts\_posting and less\_than\_6 keep a posting only inside the window.\<close>

lemma holds_new_ts_posting_where:
  "holds (new_ts_posting_where db days mj)
     \<longleftrightarrow> holds (sql_eq (mj_published_date mj) (mj_poster_first_post mj))
         \<and> mj_status mj = Some ''open'' \<and> not_torre_os mj
         \<and> in_lookback_window db days (mj_published_date mj)"
  unfolding new_ts_posting_where_def holds_sql_and holds_business_line holds_sql_eq_Some
  using holds_window [of "mj_published_date mj" db days] by blast

lemma new_ts_posting_window:
  "mj \<in> set (new_ts_posting_postings db days) \<Longrightarrow> in_lookback_window db days (mj_published_date mj)"
  by (auto simp: new_ts_posting_postings_def new_ts_posting_matches_def holds_new_ts_posting_where)

lemma less_than_6_window:
  "mj \<in> set (less_than_6_postings db days) \<Longrightarrow> in_lookback_window db days (mj_published_date mj)"
  by (simp add: less_than_6_postings_iff less_than_6_as_stated_def)

text \<open>
  Claim C5 on a posting published two days after today, which is outside
  \<open>[today - 30 days, today + 1 day)\<close>: new\_ts\_posting and less\_than\_6 leave it out,
  and no\_activity, whose query has no upper bound on the publish date, returns it.
\<close>

theorem no_activity_future_posting:
  "in_lookback_window future_db 30 (mj_published_date future_job) = False
   \<and> mj_published_date future_job = Some (date_ts (current_date future_db) + interval_days 2)
   \<and> no_activity_postings future_db 7 30 = [future_job]
   \<and> new_ts_posting_postings future_db 30 = []
   \<and> less_than_6_postings future_db 30 = []
   \<and> (case fst (get_no_activity (Inr (quiet future_db)) None 7 30) of
         Success p \<Rightarrow> resp_count p = 1
           \<and> map published_date (resp_data p) = [Some (date_ts 20002)]
       | Failure e \<Rightarrow> False)"
  by code_simp

section \<open>The flag endpoints\<close>

text \<open>Each endpoint by the outcome of the connection and of the statement.\<close>

lemma get_new_ts_posting_cases:
  "get_new_ts_posting factory poseidon days =
     (case fst (get_poseidon factory poseidon) of
        Inl e \<Rightarrow> (Failure e, snd (get_poseidon factory poseidon))
      | Inr conn \<Rightarrow>
          (case raises conn (NewTsPostingSql days) of
             Some e \<Rightarrow> (Failure e, snd (get_poseidon factory poseidon))
           | None \<Rightarrow>
               (Success \<lparr>resp_flag = ''new_ts_posting'',
                  resp_description =
                    ''TSs posting for the first time (includes approved & unapproved)'',
                  resp_count = length (new_ts_posting_query (tables conn) days),
                  resp_data = map shape_new_ts_posting (new_ts_posting_query (tables conn) days),
                  days_lookback = days\<rparr>, snd (get_poseidon factory poseidon))))"
  by (cases "get_poseidon factory poseidon")
     (simp add: get_new_ts_posting_def execute_new_ts_posting_def Let_def
        split: sum.splits option.splits)

lemma get_less_than_6_cases:
  "get_less_than_6 factory poseidon days =
     (case fst (get_poseidon factory poseidon) of
        Inl e \<Rightarrow> (Failure e, snd (get_poseidon factory poseidon))
      | Inr conn \<Rightarrow>
          (case raises conn (LessThan6Sql days) of
             Some e \<Rightarrow> (Failure e, snd (get_poseidon factory poseidon))
           | None \<Rightarrow>
               (Success \<lparr>resp_flag = ''less_than_6'',
                  resp_description = ''Approved openings with less than 6 relevant applicants'',
                  resp_count = length (less_than_6_query (tables conn) days),
                  resp_data = map shape_less_than_6 (less_than_6_query (tables conn) days),
                  days_lookback = days\<rparr>, snd (get_poseidon factory poseidon))))"
  by (cases "get_poseidon factory poseidon")
     (simp add: get_less_than_6_def execute_less_than_6_def Let_def
        split: sum.splits option.splits)

lemma get_no_activity_cases:
  "get_no_activity factory poseidon inactive_days lookback =
     (case fst (get_poseidon factory poseidon) of
        Inl e \<Rightarrow> (Failure e, snd (get_poseidon factory poseidon))
      | Inr conn \<Rightarrow>
          (case raises conn (NoActivitySql inactive_days lookback) of
             Some e \<Rightarrow> (Failure e, snd (get_poseidon factory poseidon))
           | None \<Rightarrow>
               (Success \<lparr>resp_flag = ''no_activity'',
                  resp_description = ''Approved jobs with no activity in pipeline for ''
                                       @ str_int inactive_days @ ''+ days'',
                  resp_count = length (no_activity_query (tables conn) inactive_days lookback),
                  resp_data = map shape_no_activity
                                (no_activity_query (tables conn) inactive_days lookback),
                  inactive_days_threshold = inactive_days,
                  lookback_days = lookback\<rparr>, snd (get_poseidon factory poseidon))))"
  by (cases "get_poseidon factory poseidon")
     (simp add: get_no_activity_def execute_no_activity_def Let_def
        split: sum.splits option.splits)

lemma snd_get_new_ts_posting:
  "snd (get_new_ts_posting factory poseidon days) = snd (get_poseidon factory poseidon)"
  by (simp add: get_new_ts_posting_cases split: sum.splits option.splits)

lemma snd_get_less_than_6:
  "snd (get_less_than_6 factory poseidon days) = snd (get_poseidon factory poseidon)"
  by (simp add: get_less_than_6_cases split: sum.splits option.splits)

lemma snd_get_no_activity:
  "snd (get_no_activity factory poseidon inactive_days lookback) = snd (get_poseidon factory poseidon)"
  by (simp add: get_no_activity_cases split: sum.splits option.splits)

lemma new_ts_posting_count:
  "get_count (fst (get_new_ts_posting factory poseidon days))
     = failed_as_zero (fst (get_new_ts_posting factory poseidon days))"
  by (simp add: get_new_ts_posting_cases get_count_def failed_as_zero_def
      split: sum.splits option.splits)

lemma less_than_6_count:
  "get_count (fst (get_less_than_6 factory poseidon days))
     = failed_as_zero (fst (get_less_than_6 factory poseidon days))"
  by (simp add: get_less_than_6_cases get_count_def failed_as_zero_def
      split: sum.splits option.splits)

lemma no_activity_count:
  "get_count (fst (get_no_activity factory poseidon inactive_days lookback))
     = failed_as_zero (fst (get_no_activity factory poseidon inactive_days lookback))"
  by (simp add: get_no_activity_cases get_count_def failed_as_zero_def
      split: sum.splits option.splits)

section \<open>The all-priorities endpoint\<close>

text \<open>
  Claim C2. The all-priorities endpoint runs new\_ts\_posting and less\_than\_6 with the
  lookback it was given and no\_activity with 7 inactive days and the same lookback, one
  after the other; whatever each of them returns, a payload or a failure body, it embeds
  that result, answers with success true, and reports as total the sum of the three
  counts, a failed sub-flag counting 0.
\<close>

theorem all_priorities_total:
  "get_all_high_priority_flags factory poseidon days =
     (let a = get_new_ts_posting factory poseidon days;
          b = get_less_than_6 factory (snd a) days;
          c = get_no_activity factory (snd b) 7 days
      in (Success \<lparr>flags_new_ts_posting = fst a, flags_less_than_6 = fst b,
            flags_no_activity = fst c,
            summary = \<lparr>total_clients_to_contact =
                         failed_as_zero (fst a) + failed_as_zero (fst b) + failed_as_zero (fst c),
                       breakdown = \<lparr>breakdown_new_ts_posting = failed_as_zero (fst a),
                                    breakdown_less_than_6 = failed_as_zero (fst b),
                                    breakdown_no_activity = failed_as_zero (fst c)\<rparr>\<rparr>\<rparr>,
          snd c))"
proof -
  obtain new_ts st1 where a: "get_new_ts_posting factory poseidon days = (new_ts, st1)"
    by (cases "get_new_ts_posting factory poseidon days")
  obtain less_6 st2 where b: "get_less_than_6 factory st1 days = (less_6, st2)"
    by (cases "get_less_than_6 factory st1 days")
  obtain no_act st3 where c: "get_no_activity factory st2 7 days = (no_act, st3)"
    by (cases "get_no_activity factory st2 7 days")
  have ca: "get_count new_ts = failed_as_zero new_ts"
    using new_ts_posting_count [of factory poseidon days] by (simp add: a)
  have cb: "get_count less_6 = failed_as_zero less_6"
    using less_than_6_count [of factory st1 days] by (simp add: b)
  have cc: "get_count no_act = failed_as_zero no_act"
    using no_activity_count [of factory st2 7 days] by (simp add: c)
  show ?thesis
    by (simp add: get_all_high_priority_flags_def a b c ca cb cc Let_def)
qed

text \<open>With the less\_than\_6 statement raising, the two other flags still count.\<close>

theorem all_priorities_total_witness:
  "fst (get_less_than_6 (Inr (flaky sample_db)) (Some (flaky sample_db)) 7)
     = Failure ''relation does not exist''
   \<and> (case fst (get_all_high_priority_flags (Inr (flaky sample_db)) None 7) of
        Success r \<Rightarrow> flags_less_than_6 r = Failure ''relation does not exist''
          \<and> failed_as_zero (flags_new_ts_posting r) = 1
          \<and> failed_as_zero (flags_no_activity r) = 1
          \<and> total_clients_to_contact (summary r) = 2
      | Failure e \<Rightarrow> False)"
proof -
  have st: "snd (get_new_ts_posting (Inr (flaky sample_db)) None 7) = Some (flaky sample_db)"
    by (simp add: snd_get_new_ts_posting get_poseidon_def)
  have a: "fst (get_new_ts_posting (Inr (flaky sample_db)) None 7)
             = Success \<lparr>resp_flag = ''new_ts_posting'',
                  resp_description =
                    ''TSs posting for the first time (includes approved & unapproved)'',
                  resp_count = 1,
                  resp_data = [shape_new_ts_posting (new_ts_posting_select (sample_job, sample_poster))],
                  days_lookback = 7\<rparr>"
    by code_simp
  have b: "get_less_than_6 (Inr (flaky sample_db)) (Some (flaky sample_db)) 7
             = (Failure ''relation does not exist'', Some (flaky sample_db))"
    by (simp add: get_less_than_6_cases get_poseidon_def flaky_def)
  have c: "fst (get_no_activity (Inr (flaky sample_db)) (Some (flaky sample_db)) 7 7)
             = Success \<lparr>resp_flag = ''no_activity'',
                  resp_description = ''Approved jobs with no activity in pipeline for 7+ days'',
                  resp_count = 1,
                  resp_data = [shape_no_activity (no_activity_select (sample_job, sample_poster, None))],
                  inactive_days_threshold = 7, lookback_days = 7\<rparr>"
    by code_simp
  from all_priorities_total [of "Inr (flaky sample_db)" None 7] st a b c show ?thesis
    by (simp add: Let_def failed_as_zero_def)
qed

section \<open>Defaults for title and organization\<close>






section \<open>Failures\<close>

text \<open>
  Claim C8, amended. Each of the three flag endpoints returns the failure body with the
  raw message exactly when getting the connection raises with that message or the
  connection raises with it on the endpoint's statement; it never lets the exception
  through. Without a connection so far, getting one raises exactly when the factory does.
  A malformed parameter is not such a failure: the parameters are bound as integers
  before the handler and its \<^verbatim>\<open>try\<close> run, so with a malformed parameter the handler is
  not called and returns no failure body, and with integer parameters it is called with
  them.
\<close>

theorem failures_are_caught:
  "(fst (get_new_ts_posting factory poseidon days) = Failure e
      \<longleftrightarrow> fst (get_poseidon factory poseidon) = Inl e
          \<or> (\<exists>conn. fst (get_poseidon factory poseidon) = Inr conn
                \<and> raises conn (NewTsPostingSql days) = Some e))
   \<and> (fst (get_less_than_6 factory poseidon days) = Failure e
      \<longleftrightarrow> fst (get_poseidon factory poseidon) = Inl e
          \<or> (\<exists>conn. fst (get_poseidon factory poseidon) = Inr conn
                \<and> raises conn (LessThan6Sql days) = Some e))
   \<and> (fst (get_no_activity factory poseidon inactive_days lookback) = Failure e
      \<longleftrightarrow> fst (get_poseidon factory poseidon) = Inl e
          \<or> (\<exists>conn. fst (get_poseidon factory poseidon) = Inr conn
                \<and> raises conn (NoActivitySql inactive_days lookback) = Some e))
   \<and> (fst (get_poseidon factory None) = Inl e \<longleftrightarrow> factory = Inl e)
   \<and> fst (route_new_ts_posting factory poseidon (Malformed s)) = NotCalled
   \<and> fst (route_less_than_6 factory poseidon (Malformed s)) = NotCalled
   \<and> fst (route_no_activity factory poseidon (Malformed s) p) = NotCalled
   \<and> fst (route_no_activity factory poseidon p (Malformed s)) = NotCalled
   \<and> fst (route_new_ts_posting factory poseidon (Given n))
       = Called (fst (get_new_ts_posting factory poseidon n))
   \<and> fst (route_less_than_6 factory poseidon (Given n))
       = Called (fst (get_less_than_6 factory poseidon n))
   \<and> fst (route_no_activity factory poseidon (Given i) (Given n))
       = Called (fst (get_no_activity factory poseidon i n))"
proof -
  have a: "fst (get_new_ts_posting factory poseidon days) = Failure e
      \<longleftrightarrow> fst (get_poseidon factory poseidon) = Inl e
          \<or> (\<exists>conn. fst (get_poseidon factory poseidon) = Inr conn
                \<and> raises conn (NewTsPostingSql days) = Some e)"
    by (auto simp: get_new_ts_posting_cases split: sum.splits option.splits)
  have b: "fst (get_less_than_6 factory poseidon days) = Failure e
      \<longleftrightarrow> fst (get_poseidon factory poseidon) = Inl e
          \<or> (\<exists>conn. fst (get_poseidon factory poseidon) = Inr conn
                \<and> raises conn (LessThan6Sql days) = Some e)"
    by (auto simp: get_less_than_6_cases split: sum.splits option.splits)
  have c: "fst (get_no_activity factory poseidon inactive_days lookback) = Failure e
      \<longleftrightarrow> fst (get_poseidon factory poseidon) = Inl e
          \<or> (\<exists>conn. fst (get_poseidon factory poseidon) = Inr conn
                \<and> raises conn (NoActivitySql inactive_days lookback) = Some e)"
    by (auto simp: get_no_activity_cases split: sum.splits option.splits)
  have d: "fst (get_poseidon factory None) = Inl e \<longleftrightarrow> factory = Inl e"
    by (cases factory) (simp_all add: get_poseidon_def)
  have bad: "fst (route_new_ts_posting factory poseidon (Malformed s)) = NotCalled"
      "fst (route_less_than_6 factory poseidon (Malformed s)) = NotCalled"
      "fst (route_no_activity factory poseidon (Malformed s) p) = NotCalled"
      "fst (route_no_activity factory poseidon p (Malformed s)) = NotCalled"
    by (simp_all add: route_new_ts_posting_def route_less_than_6_def route_no_activity_def
        bind_int_def split: query_param.splits prod.splits)
  have good: "fst (route_new_ts_posting factory poseidon (Given n))
                = Called (fst (get_new_ts_posting factory poseidon n))"
      "fst (route_less_than_6 factory poseidon (Given n))
                = Called (fst (get_less_than_6 factory poseidon n))"
      "fst (route_no_activity factory poseidon (Given i) (Given n))
                = Called (fst (get_no_activity factory poseidon i n))"
    by (simp_all add: route_new_ts_posting_def route_less_than_6_def route_no_activity_def
        bind_int_def split: prod.splits)
  from a b c d bad good show ?thesis by (intro conjI)
qed

theorem failures_are_caught_witness:
  "fst (get_new_ts_posting (Inl ''connection refused'') None 7) = Failure ''connection refused''
   \<and> fst (get_no_activity (Inl ''connection refused'') None 7 30) = Failure ''connection refused''
   \<and> fst (get_less_than_6 (Inr (flaky sample_db)) None 30) = Failure ''relation does not exist''
   \<and> fst (route_less_than_6 (Inr (flaky sample_db)) None (Given 30))
       = Called (Failure ''relation does not exist'')
   \<and> fst (route_less_than_6 (Inr (flaky sample_db)) None (Malformed ''abc'')) = NotCalled"
proof -
  note caught = failures_are_caught
  have down: "fst (get_poseidon (Inl ''connection refused'') None) = Inl ''connection refused''"
    by (simp add: get_poseidon_def)
  have up: "fst (get_poseidon (Inr (flaky sample_db)) None) = Inr (flaky sample_db)"
    by (simp add: get_poseidon_def)
  have boom: "raises (flaky sample_db) (LessThan6Sql 30) = Some ''relation does not exist''"
    by (simp add: flaky_def)
  have "fst (get_new_ts_posting (Inl ''connection refused'') None 7) = Failure ''connection refused''
      \<longleftrightarrow> fst (get_poseidon (Inl ''connection refused'') None) = Inl ''connection refused''
          \<or> (\<exists>conn. fst (get_poseidon (Inl ''connection refused'') None) = Inr conn
                \<and> raises conn (NewTsPostingSql 7) = Some ''connection refused'')"
    by (rule conjunct1 [OF caught])
  with down have a: "fst (get_new_ts_posting (Inl ''connection refused'') None 7)
                       = Failure ''connection refused''"
    by simp
  have "fst (get_no_activity (Inl ''connection refused'') None 7 30) = Failure ''connection refused''
      \<longleftrightarrow> fst (get_poseidon (Inl ''connection refused'') None) = Inl ''connection refused''
          \<or> (\<exists>conn. fst (get_poseidon (Inl ''connection refused'') None) = Inr conn
                \<and> raises conn (NoActivitySql 7 30) = Some ''connection refused'')"
    by (rule conjunct1 [OF conjunct2 [OF conjunct2 [OF caught]]])
  with down have b: "fst (get_no_activity (Inl ''connection refused'') None 7 30)
                       = Failure ''connection refused''"
    by simp
  have "fst (get_less_than_6 (Inr (flaky sample_db)) None 30) = Failure ''relation does not exist''
      \<longleftrightarrow> fst (get_poseidon (Inr (flaky sample_db)) None) = Inl ''relation does not exist''
          \<or> (\<exists>conn. fst (get_poseidon (Inr (flaky sample_db)) None) = Inr conn
                \<and> raises conn (LessThan6Sql 30) = Some ''relation does not exist'')"
    by (rule conjunct1 [OF conjunct2 [OF caught]])
  with up boom have c: "fst (get_less_than_6 (Inr (flaky sample_db)) None 30)
                          = Failure ''relation does not exist''"
    by simp
  have "fst (route_less_than_6 (Inr (flaky sample_db)) None (Given 30))
          = Called (fst (get_less_than_6 (Inr (flaky sample_db)) None 30))"
    by (simp add: route_less_than_6_def bind_int_def split: prod.splits)
  then have d: "fst (route_less_than_6 (Inr (flaky sample_db)) None (Given 30))
             = Called (Failure ''relation does not exist'')"
    by (simp only: c)
  have e: "fst (route_less_than_6 (Inr (flaky sample_db)) None (Malformed ''abc'')) = NotCalled"
    by (simp add: route_less_than_6_def bind_int_def)
  from a b c d e show ?thesis by (intro conjI)
qed

text \<open>
  Claim C8 as it is written fails for a malformed parameter: on a working connection,
  a request whose parameter is not an integer never reaches the handler, so no endpoint
  returns the failure body for it.
\<close>

theorem malformed_parameter_counterexample:
  "fst (route_new_ts_posting (Inr (quiet sample_db)) None (Malformed ''abc'')) = NotCalled
   \<and> fst (route_less_than_6 (Inr (quiet sample_db)) None (Malformed ''abc'')) = NotCalled
   \<and> fst (route_no_activity (Inr (quiet sample_db)) None (Given 7) (Malformed ''1.5.2''))
       = NotCalled"
  by (simp add: route_new_ts_posting_def route_less_than_6_def route_no_activity_def
      bind_int_def)

section \<open>The client lookup\<close>

lemma set_map_filter: "set (List.map_filter f xs) = {y. \<exists>x\<in>set xs. f x = Some y}"
  by (induction xs) (auto simp: List.map_filter_simps split: option.splits)

lemma join_rows:
  "(mg, jo) \<in> set (client_details_join db)
     \<longleftrightarrow> mg \<in> set (mart_genomes db)
         \<and> (if postings_of db (mg_gg_id mg) = [] then jo = None
             else jo \<in> Some ` set (postings_of db (mg_gg_id mg)))"
  by (auto simp: client_details_join_def postings_of_def Let_def split: if_splits)

lemma finite_somes: "finite {t. Some t \<in> set xs}"
proof -
  have "{t. Some t \<in> set xs} = set (List.map_filter (\<lambda>x. x) xs)"
    by (auto simp: set_map_filter)
  then show ?thesis by simp
qed

lemma sql_min_set:
  "sql_min xs = (if {t. Some t \<in> set xs} = {} then None else Some (Min {t. Some t \<in> set xs}))"
proof (induction xs rule: sql_min.induct)
  case 1
  then show ?case by simp
next
  case (2 xs)
  then show ?case by simp
next
  case (3 a xs)
  let ?T = "{t. Some t \<in> set xs}"
  have ins: "{t. Some t \<in> set (Some a # xs)} = insert a ?T"
    by auto
  have fin: "finite ?T"
    by (rule finite_somes)
  show ?case
  proof (cases "?T = {}")
    case True
    with 3 have "sql_min xs = None" by simp
    then have "sql_min (Some a # xs) = Some a" by simp
    moreover have "Min (insert a ?T) = a" unfolding True by simp
    ultimately show ?thesis unfolding ins by simp
  next
    case False
    with 3 have "sql_min xs = Some (Min ?T)" by simp
    then have "sql_min (Some a # xs) = Some (min a (Min ?T))" by simp
    moreover from fin False have "Min (insert a ?T) = min a (Min ?T)" by (rule Min_insert)
    ultimately show ?thesis unfolding ins by simp
  qed
qed

lemma sql_max_set:
  "sql_max xs = (if {t. Some t \<in> set xs} = {} then None else Some (Max {t. Some t \<in> set xs}))"
proof (induction xs rule: sql_max.induct)
  case 1
  then show ?case by simp
next
  case (2 xs)
  then show ?case by simp
next
  case (3 a xs)
  let ?T = "{t. Some t \<in> set xs}"
  have ins: "{t. Some t \<in> set (Some a # xs)} = insert a ?T"
    by auto
  have fin: "finite ?T"
    by (rule finite_somes)
  show ?case
  proof (cases "?T = {}")
    case True
    with 3 have "sql_max xs = None" by simp
    then have "sql_max (Some a # xs) = Some a" by simp
    moreover have "Max (insert a ?T) = a" unfolding True by simp
    ultimately show ?thesis unfolding ins by simp
  next
    case False
    with 3 have "sql_max xs = Some (Max ?T)" by simp
    then have "sql_max (Some a # xs) = Some (max a (Max ?T))" by simp
    moreover from fin False have "Max (insert a ?T) = max a (Max ?T)" by (rule Max_insert)
    ultimately show ?thesis unfolding ins by simp
  qed
qed

lemma count_distinct_card: "count_distinct xs = card {t. Some t \<in> set xs}"
proof -
  have "set (List.map_filter (\<lambda>x. x) xs) = {t. Some t \<in> set xs}"
    by (auto simp: set_map_filter)
  then show ?thesis
    by (simp add: count_distinct_def length_remdups_card_conv)
qed

lemma column_values:
  assumes "S = (if P = [] then {None} else Some ` set P)"
  shows "{t. Some t \<in> column f ` S} = set (List.map_filter f P)"
proof (cases "P = []")
  case True
  with assms show ?thesis by (simp add: column_def List.map_filter_simps)
next
  case False
  with assms have "S = Some ` set P" by simp
  then have "column f ` S = f ` set P"
    by (simp add: column_def image_image)
  then show ?thesis
    by (auto simp: set_map_filter image_iff) metis+
qed

lemma open_hash_id_column:
  "open_hash_id = column (\<lambda>mj. if mj_status mj = Some ''open'' then mj_hash_id mj else None)"
  by (auto simp: fun_eq_iff open_hash_id_def column_def holds_sql_eq_Some split: option.splits)

lemma open_values:
  "set (List.map_filter (\<lambda>mj. if mj_status mj = Some ''open'' then mj_hash_id mj else None) P)
     = set (List.map_filter mj_hash_id (filter (\<lambda>mj. mj_status mj = Some ''open'') P))"
  by (auto simp: set_map_filter)


lemma group_members:
  assumes mg0: "mg0 \<in> set (mart_genomes db)" "mg_email mg0 = Some e"
  shows "set (map snd (filter (\<lambda>(mg, mj). group_key mg = group_key mg0)
                (filter (\<lambda>(mg, mj). holds (sql_eq (mg_email mg) (Some e)))
                        (client_details_join db))))
         = (if postings_of db (mg_gg_id mg0) = [] then {None}
            else Some ` set (postings_of db (mg_gg_id mg0)))"
    (is "?G = ?S")
proof
  show "?G \<subseteq> ?S"
  proof
    fix jo assume "jo \<in> ?G"
    then obtain mg where inj: "(mg, jo) \<in> set (client_details_join db)"
      and key: "group_key mg = group_key mg0"
      by auto
    from key have gg: "mg_gg_id mg = mg_gg_id mg0"
      by (simp add: group_key_def)
    from inj have fit: "if postings_of db (mg_gg_id mg) = [] then jo = None
                else jo \<in> Some ` set (postings_of db (mg_gg_id mg))"
      by (simp add: join_rows)
    from fit show "jo \<in> ?S"
      unfolding gg by (cases "postings_of db (mg_gg_id mg0) = []") simp_all
  qed
  show "?S \<subseteq> ?G"
  proof
    fix jo assume "jo \<in> ?S"
    with mg0 have "(mg0, jo) \<in> set (client_details_join db)"
      by (auto simp: join_rows split: if_splits)
    with mg0 have "(mg0, jo) \<in> set (filter (\<lambda>(mg, mj). group_key mg = group_key mg0)
                (filter (\<lambda>(mg, mj). holds (sql_eq (mg_email mg) (Some e)))
                        (client_details_join db)))"
      by (simp add: holds_sql_eq_Some)
    then show "jo \<in> ?G" by force
  qed
qed

lemma client_details_keys:
  "set (map (\<lambda>(mg, mj). group_key mg)
          (filter (\<lambda>(mg, mj). holds (sql_eq (mg_email mg) (Some e))) (client_details_join db)))
     = group_key ` {mg \<in> set (mart_genomes db). mg_email mg = Some e}"
proof -
  have some: "\<exists>jo. (mg, jo) \<in> set (client_details_join db)" if "mg \<in> set (mart_genomes db)" for mg
    using that by (cases "postings_of db (mg_gg_id mg)") (auto simp: join_rows)
  show ?thesis
  proof (intro equalityI subsetI)
    fix k assume "k \<in> set (map (\<lambda>(mg, mj). group_key mg)
          (filter (\<lambda>(mg, mj). holds (sql_eq (mg_email mg) (Some e))) (client_details_join db)))"
    then obtain mg jo where "(mg, jo) \<in> set (client_details_join db)" "mg_email mg = Some e"
        "k = group_key mg"
      by (auto simp: holds_sql_eq_Some)
    then show "k \<in> group_key ` {mg \<in> set (mart_genomes db). mg_email mg = Some e}"
      by (auto simp: join_rows)
  next
    fix k assume "k \<in> group_key ` {mg \<in> set (mart_genomes db). mg_email mg = Some e}"
    then obtain mg where mg: "mg \<in> set (mart_genomes db)" "mg_email mg = Some e" "k = group_key mg"
      by auto
    from some [OF mg(1)] obtain jo where "(mg, jo) \<in> set (client_details_join db)" ..
    with mg have "(mg, jo) \<in> set (filter (\<lambda>(mg, mj). holds (sql_eq (mg_email mg) (Some e)))
                                 (client_details_join db))"
      by (simp add: holds_sql_eq_Some)
    then show "k \<in> set (map (\<lambda>(mg, mj). group_key mg)
          (filter (\<lambda>(mg, mj). holds (sql_eq (mg_email mg) (Some e))) (client_details_join db)))"
      using mg(3) by force
  qed
qed

lemma client_details_query_empty:
  "client_details_query db e = [] \<longleftrightarrow> \<not> has_email db e"
proof -
  have "client_details_query db e = []
          \<longleftrightarrow> set (map (\<lambda>(mg, mj). group_key mg)
                (filter (\<lambda>(mg, mj). holds (sql_eq (mg_email mg) (Some e)))
                        (client_details_join db))) = {}"
    by (simp add: client_details_query_def Let_def del: set_map)
  then show ?thesis
    unfolding client_details_keys by (auto simp: has_email_def list_ex_iff)
qed

lemma client_details_query_rows:
  assumes "r \<in> set (client_details_query db e)"
  shows "\<exists>mg\<in>set (mart_genomes db). mg_email mg = Some e
           \<and> r = \<lparr>row_name = mg_name mg, row_email = Some e, row_gg_id = mg_gg_id mg,
                  row_total_jobs = total_postings db (mg_gg_id mg),
                  row_open_jobs = open_postings db (mg_gg_id mg),
                  row_first_job_date = first_publish db (mg_gg_id mg),
                  row_last_job_date = last_publish db (mg_gg_id mg)\<rparr>"
proof -
  let ?rows = "filter (\<lambda>(mg, mj). holds (sql_eq (mg_email mg) (Some e))) (client_details_join db)"
  let ?grp = "\<lambda>k. map snd (filter (\<lambda>(mg, mj). group_key mg = k) ?rows)"
  let ?row = "\<lambda>k. \<lparr>row_name = fst k, row_email = fst (snd k), row_gg_id = snd (snd k),
                 row_total_jobs = count_distinct (map (column mj_hash_id) (?grp k)),
                 row_open_jobs = count_distinct (map open_hash_id (?grp k)),
                 row_first_job_date = sql_min (map (column mj_published_date) (?grp k)),
                 row_last_job_date = sql_max (map (column mj_published_date) (?grp k))\<rparr>"
  have q: "client_details_query db e
             = map ?row (remdups (map (\<lambda>(mg, mj). group_key mg) ?rows))"
    unfolding client_details_query_def Let_def ..
  from assms have "r \<in> ?row ` set (map (\<lambda>(mg, mj). group_key mg) ?rows)"
    unfolding q by (simp only: set_map set_remdups)
  then obtain k where k: "k \<in> set (map (\<lambda>(mg, mj). group_key mg) ?rows)" and r: "r = ?row k"
    by blast
  from k obtain mg where mg: "mg \<in> set (mart_genomes db)" "mg_email mg = Some e" "k = group_key mg"
    unfolding client_details_keys by auto
  let ?P = "postings_of db (mg_gg_id mg)"
  have members: "set (?grp k) = (if ?P = [] then {None} else Some ` set ?P)"
    unfolding mg(3) using mg(1,2) by (rule group_members)
  have vals: "{t. Some t \<in> set (map (column f) (?grp k))} = set (List.map_filter f ?P)" for f :: "job \<Rightarrow> 'a option"
  proof -
    have "{t. Some t \<in> set (map (column f) (?grp k))} = {t. Some t \<in> column f ` set (?grp k)}"
      by (simp only: set_map)
    also have "\<dots> = set (List.map_filter f ?P)"
      using members by (rule column_values)
    finally show ?thesis .
  qed
  have total: "count_distinct (map (column mj_hash_id) (?grp k)) = total_postings db (mg_gg_id mg)"
    by (simp only: count_distinct_card vals total_postings_def)
  have opened: "count_distinct (map open_hash_id (?grp k)) = open_postings db (mg_gg_id mg)"
    by (simp only: count_distinct_card open_hash_id_column vals open_values open_postings_def)
  have nonempty: "set xs = {} \<longleftrightarrow> xs = []" for xs :: "int list"
    by simp
  have first: "sql_min (map (column mj_published_date) (?grp k)) = first_publish db (mg_gg_id mg)"
    by (simp only: sql_min_set vals first_publish_def Let_def nonempty)
  have last: "sql_max (map (column mj_published_date) (?grp k)) = last_publish db (mg_gg_id mg)"
    by (simp only: sql_max_set vals last_publish_def Let_def nonempty)
  have "r = \<lparr>row_name = mg_name mg, row_email = Some e, row_gg_id = mg_gg_id mg,
                  row_total_jobs = total_postings db (mg_gg_id mg),
                  row_open_jobs = open_postings db (mg_gg_id mg),
                  row_first_job_date = first_publish db (mg_gg_id mg),
                  row_last_job_date = last_publish db (mg_gg_id mg)\<rparr>"
    unfolding r total opened first last by (simp add: mg group_key_def)
  with mg(1,2) show ?thesis by blast
qed

lemma get_client_details_cases:
  "get_client_details factory poseidon e =
     (case fst (get_poseidon factory poseidon) of
        Inl m \<Rightarrow> (Returned (Failure m), snd (get_poseidon factory poseidon))
      | Inr conn \<Rightarrow>
          (case execute_client_details conn e of
             Inl m \<Rightarrow> (Returned (Failure m), snd (get_poseidon factory poseidon))
           | Inr [] \<Rightarrow> (HTTPException 404 ''Cliente no encontrado'',
                        snd (get_poseidon factory poseidon))
           | Inr (r # rs) \<Rightarrow>
               (Returned (Success
                  \<lparr>name = row_name r, email = row_email r, gg_id = row_gg_id r,
                   total_jobs_posted = row_total_jobs r, open_jobs = row_open_jobs r,
                   first_job_date = row_first_job_date r,
                   last_job_date = row_last_job_date r\<rparr>),
                snd (get_poseidon factory poseidon))))"
  by (cases "get_poseidon factory poseidon")
     (simp add: get_client_details_def Let_def split: sum.splits list.splits)

lemma execute_client_details_raises:
  "execute_client_details conn e = Inl m \<longleftrightarrow> raises conn (ClientDetailsSql e) = Some m"
  by (simp add: execute_client_details_def split: option.splits)

lemma execute_client_details_plain:
  "plain_literal e \<Longrightarrow> raises conn (ClientDetailsSql e) = None
   \<Longrightarrow> execute_client_details conn e = Inr (client_details_query (tables conn) e)"
  by (simp add: execute_client_details_def)

text \<open>
  What the client lookup does by the outcome of the statement, and what the statement
  returns for an email without quote or backslash. The lookup raises the 404 exception
  exactly when the connection is there and the statement returns no row; it returns
  success with the first row's name, email, identifier, posting count, open-posting
  count and first and last publish date exactly when the statement returns a row; and it
  returns the failure body with the message exactly when getting the connection or the
  statement raises. For an email without quote or backslash the statement is the query
  over the tables: it returns no row exactly when no poster profile has that email, and
  every row it returns is a profile with that email together with the number of its
  different postings, of its different open postings, and its earliest and latest
  publish date.
\<close>

lemma client_lookup:
  "(fst (get_client_details factory poseidon e) = HTTPException code detail
      \<longleftrightarrow> code = 404 \<and> detail = ''Cliente no encontrado''
          \<and> (\<exists>conn. fst (get_poseidon factory poseidon) = Inr conn
                \<and> execute_client_details conn e = Inr []))
   \<and> (fst (get_client_details factory poseidon e) = Returned (Failure msg)
      \<longleftrightarrow> fst (get_poseidon factory poseidon) = Inl msg
          \<or> (\<exists>conn. fst (get_poseidon factory poseidon) = Inr conn
                \<and> raises conn (ClientDetailsSql e) = Some msg))
   \<and> (fst (get_client_details factory poseidon e) = Returned (Success d)
      \<longleftrightarrow> (\<exists>conn r rs. fst (get_poseidon factory poseidon) = Inr conn
                \<and> execute_client_details conn e = Inr (r # rs)
                \<and> d = \<lparr>name = row_name r, email = row_email r, gg_id = row_gg_id r,
                       total_jobs_posted = row_total_jobs r, open_jobs = row_open_jobs r,
                       first_job_date = row_first_job_date r,
                       last_job_date = row_last_job_date r\<rparr>))
   \<and> (plain_literal e \<and> raises c (ClientDetailsSql e) = None
      \<longrightarrow> execute_client_details c e = Inr (client_details_query (tables c) e))
   \<and> (client_details_query db e = [] \<longleftrightarrow> \<not> has_email db e)
   \<and> (row \<in> set (client_details_query db e)
      \<longrightarrow> (\<exists>mg\<in>set (mart_genomes db). mg_email mg = Some e
            \<and> row = \<lparr>row_name = mg_name mg, row_email = Some e, row_gg_id = mg_gg_id mg,
                      row_total_jobs = total_postings db (mg_gg_id mg),
                      row_open_jobs = open_postings db (mg_gg_id mg),
                      row_first_job_date = first_publish db (mg_gg_id mg),
                      row_last_job_date = last_publish db (mg_gg_id mg)\<rparr>))"
proof -
  note [simp] = get_client_details_cases
  have missing: "fst (get_client_details factory poseidon e) = HTTPException code detail
      \<longleftrightarrow> code = 404 \<and> detail = ''Cliente no encontrado''
          \<and> (\<exists>conn. fst (get_poseidon factory poseidon) = Inr conn
                \<and> execute_client_details conn e = Inr [])"
  proof (cases "fst (get_poseidon factory poseidon)")
    case (Inl m)
    then show ?thesis by simp
  next
    case (Inr conn)
    show ?thesis
    proof (cases "execute_client_details conn e")
      case (Inl m)
      with Inr show ?thesis by simp
    next
      case results: (Inr results)
      with Inr show ?thesis by (cases results) auto
    qed
  qed
  have failed: "fst (get_client_details factory poseidon e) = Returned (Failure msg)
      \<longleftrightarrow> fst (get_poseidon factory poseidon) = Inl msg
          \<or> (\<exists>conn. fst (get_poseidon factory poseidon) = Inr conn
                \<and> raises conn (ClientDetailsSql e) = Some msg)"
  proof (cases "fst (get_poseidon factory poseidon)")
    case (Inl m)
    then show ?thesis by simp
  next
    case (Inr conn)
    show ?thesis
    proof (cases "execute_client_details conn e")
      case (Inl m)
      then have "raises conn (ClientDetailsSql e) = Some m"
        by (simp add: execute_client_details_raises)
      with Inr Inl show ?thesis by auto
    next
      case results: (Inr results)
      then have "raises conn (ClientDetailsSql e) \<noteq> Some msg"
        using execute_client_details_raises [of conn e msg] by simp
      with Inr results show ?thesis by (cases results) simp_all
    qed
  qed
  have found: "fst (get_client_details factory poseidon e) = Returned (Success d)
      \<longleftrightarrow> (\<exists>conn r rs. fst (get_poseidon factory poseidon) = Inr conn
                \<and> execute_client_details conn e = Inr (r # rs)
                \<and> d = \<lparr>name = row_name r, email = row_email r, gg_id = row_gg_id r,
                       total_jobs_posted = row_total_jobs r, open_jobs = row_open_jobs r,
                       first_job_date = row_first_job_date r,
                       last_job_date = row_last_job_date r\<rparr>)"
  proof (cases "fst (get_poseidon factory poseidon)")
    case (Inl m)
    then show ?thesis by simp
  next
    case (Inr conn)
    show ?thesis
    proof (cases "execute_client_details conn e")
      case (Inl m)
      with Inr show ?thesis by simp
    next
      case results: (Inr results)
      with Inr show ?thesis by (cases results) auto
    qed
  qed
  have plain: "plain_literal e \<and> raises c (ClientDetailsSql e) = None
      \<longrightarrow> execute_client_details c e = Inr (client_details_query (tables c) e)"
    by (simp add: execute_client_details_plain)
  have rows: "row \<in> set (client_details_query db e)
      \<longrightarrow> (\<exists>mg\<in>set (mart_genomes db). mg_email mg = Some e
            \<and> row = \<lparr>row_name = mg_name mg, row_email = Some e, row_gg_id = mg_gg_id mg,
                      row_total_jobs = total_postings db (mg_gg_id mg),
                      row_open_jobs = open_postings db (mg_gg_id mg),
                      row_first_job_date = first_publish db (mg_gg_id mg),
                      row_last_job_date = last_publish db (mg_gg_id mg)\<rparr>)"
    using client_details_query_rows [of row db e] by (rule impI)
  from missing failed found plain client_details_query_empty [of db e] rows
  show ?thesis by (intro conjI)
qed

text \<open>
  An unknown email is not found; a poster with three postings, two of them open, is
  reported with 3 and 2; a refused connection is a failure body, not a 404.
\<close>

lemma client_lookup_examples:
  "fst (get_client_details (Inr (quiet client_db)) None ''bob@none.io'')
     = HTTPException 404 ''Cliente no encontrado''
   \<and> fst (get_client_details (Inr (quiet client_db)) None ''ana@acme.io'')
     = Returned (Success \<lparr>name = Some ''Ana'', email = Some ''ana@acme.io'', gg_id = Some 41,
                          total_jobs_posted = 3, open_jobs = 2,
                          first_job_date = Some (date_ts 19990),
                          last_job_date = Some (date_ts 20000 + 3600)\<rparr>)
   \<and> fst (get_client_details (Inl ''connection refused'') None ''ana@acme.io'')
     = Returned (Failure ''connection refused'')"
proof -
  have up: "fst (get_poseidon (Inr (quiet client_db)) None) = Inr (quiet client_db)"
    by (simp add: get_poseidon_def)
  have none: "execute_client_details (quiet client_db) ''bob@none.io'' = Inr []"
    by code_simp
  have "fst (get_client_details (Inr (quiet client_db)) None ''bob@none.io'')
          = HTTPException 404 ''Cliente no encontrado''
        \<longleftrightarrow> (404::nat) = 404 \<and> ''Cliente no encontrado'' = ''Cliente no encontrado''
          \<and> (\<exists>conn. fst (get_poseidon (Inr (quiet client_db)) None) = Inr conn
                \<and> execute_client_details conn ''bob@none.io'' = Inr [])"
    by (rule conjunct1 [OF client_lookup])
  with up none have a: "fst (get_client_details (Inr (quiet client_db)) None ''bob@none.io'')
     = HTTPException 404 ''Cliente no encontrado''"
    by simp
  have b: "fst (get_client_details (Inr (quiet client_db)) None ''ana@acme.io'')
     = Returned (Success \<lparr>name = Some ''Ana'', email = Some ''ana@acme.io'', gg_id = Some 41,
                          total_jobs_posted = 3, open_jobs = 2,
                          first_job_date = Some (date_ts 19990),
                          last_job_date = Some (date_ts 20000 + 3600)\<rparr>)"
    by code_simp
  have down: "fst (get_poseidon (Inl ''connection refused'') None) = Inl ''connection refused''"
    by (simp add: get_poseidon_def)
  have "fst (get_client_details (Inl ''connection refused'') None ''ana@acme.io'')
          = Returned (Failure ''connection refused'')
        \<longleftrightarrow> fst (get_poseidon (Inl ''connection refused'') None) = Inl ''connection refused''
          \<or> (\<exists>conn. fst (get_poseidon (Inl ''connection refused'') None) = Inr conn
                \<and> raises conn (ClientDetailsSql ''ana@acme.io'') = Some ''connection refused'')"
    by (rule conjunct1 [OF conjunct2 [OF client_lookup]])
  with down have c: "fst (get_client_details (Inl ''connection refused'') None ''ana@acme.io'')
     = Returned (Failure ''connection refused'')"
    by simp
  from a b c show ?thesis by (intro conjI)
qed

text \<open>
  Claim C9 on an email with a quote in it. The email is pasted into the text of the
  statement, so what the lookup answers no longer follows from whether a poster has that
  email. A poster with the email \<open>o'brien@acme.io\<close> exists, and the lookup returns
  the failure body of the syntax error instead of the poster's counts and dates. No
  poster has the email \<open>x' OR '1'='1\<close>, and the lookup returns success with the data of
  the first poster of the warehouse instead of the 404.
\<close>

theorem client_lookup_quoted_email:
  "has_email quoted_db quoted_email
   \<and> plain_literal quoted_email = False
   \<and> fst (get_client_details (Inr quoted_conn) None quoted_email)
       = Returned (Failure ''syntax error at or near brien'')
   \<and> has_email client_db injected_email = False
   \<and> fst (get_client_details (Inr injected_conn) None injected_email)
       = Returned (Success \<lparr>name = Some ''Ana'', email = Some ''ana@acme.io'', gg_id = Some 41,
                            total_jobs_posted = 3, open_jobs = 2,
                            first_job_date = Some (date_ts 19990),
                            last_job_date = Some (date_ts 20000 + 3600)\<rparr>)"
  by code_simp

end
